theory Spec2Isabelle
  imports Complex_Main "HOL-Library.Sublist" "HOL-Library.Log_Nat"
begin

section \<open>JavaScript values\<close>

text \<open>
  A JavaScript number is an IEEE 754 double: not-a-number, an infinity, or a finite
  value, which is a rational. The two zeros are both \<open>Fin 0\<close>; no operation of the
  server distinguishes them.
\<close>

datatype jsnum = NaN | NegInf | Fin rat | PosInf

text \<open>
  The values that \<open>express.json()\<close> hands to a handler, and \<open>undefined\<close> for what is
  absent. \<open>JObj\<close> lists the own properties of a parsed object, each key once.
\<close>

datatype json =
    JUndefined
  | JNull
  | JBool bool
  | JNum jsnum
  | JStr string
  | JArr "json list"
  | JObj "(string \<times> json) list"

datatype error = TypeError

text \<open>
  Property access \<open>v.k\<close> on a value that is neither \<open>undefined\<close> nor \<open>null\<close>, for the
  property names the server reads: the own property of an object, the \<open>length\<close> of an
  array or a string, and \<open>undefined\<close> wherever the value has no such property.
\<close>

fun js_prop :: "json \<Rightarrow> string \<Rightarrow> json" where
  "js_prop (JObj kvs) k = (case map_of kvs k of None \<Rightarrow> JUndefined | Some v \<Rightarrow> v)"
| "js_prop (JArr xs) k = (if k = ''length'' then JNum (Fin (of_nat (length xs))) else JUndefined)"
| "js_prop (JStr s) k = (if k = ''length'' then JNum (Fin (of_nat (length s))) else JUndefined)"
| "js_prop v k = JUndefined"

text \<open>Property access on any value: reading a property of \<open>undefined\<close> or \<open>null\<close> throws.\<close>

definition nullish :: "json \<Rightarrow> bool" where
  "nullish v = (v = JUndefined \<or> v = JNull)"

definition get_prop :: "json \<Rightarrow> string \<Rightarrow> error + json" where
  "get_prop v k = (if nullish v then Inl TypeError else Inr (js_prop v k))"

text \<open>Truthiness (\<open>ToBoolean\<close>).\<close>

fun truthy :: "json \<Rightarrow> bool" where
  "truthy JUndefined = False"
| "truthy JNull = False"
| "truthy (JBool b) = b"
| "truthy (JNum n) = (n \<noteq> NaN \<and> n \<noteq> Fin 0)"
| "truthy (JStr s) = (s \<noteq> [])"
| "truthy (JArr xs) = True"
| "truthy (JObj kvs) = True"

text \<open>
  \<open>Array.prototype.find\<close> and \<open>Array.prototype.filter\<close> with a callback that may throw:
  the elements are visited from index 0, and an exception of the callback ends the call.
  \<open>find\<close> stops at the first element the callback accepts; \<open>None\<close> is its \<open>undefined\<close>.
\<close>

fun js_find :: "('a \<Rightarrow> error + bool) \<Rightarrow> 'a list \<Rightarrow> error + 'a option" where
  "js_find p [] = Inr None"
| "js_find p (x # xs) =
     (case p x of
        Inl e \<Rightarrow> Inl e
      | Inr b \<Rightarrow> if b then Inr (Some x) else js_find p xs)"

fun js_filter :: "('a \<Rightarrow> error + bool) \<Rightarrow> 'a list \<Rightarrow> error + 'a list" where
  "js_filter p [] = Inr []"
| "js_filter p (x # xs) =
     (case p x of
        Inl e \<Rightarrow> Inl e
      | Inr b \<Rightarrow>
          (case js_filter p xs of
             Inl e \<Rightarrow> Inl e
           | Inr ys \<Rightarrow> Inr (if b then x # ys else ys)))"

text \<open>\<open>xs.slice(-n)\<close>: the last \<open>n\<close> elements, all of them when there are fewer.\<close>

definition slice_last :: "nat \<Rightarrow> 'a list \<Rightarrow> 'a list" where
  "slice_last n xs = drop (length xs - n) xs"

section \<open>Conversation truncation (\<open>/api/chat\<close>, lines 72 to 79)\<close>

text \<open>The two callbacks: \<open>m => m.role === 'system'\<close> and \<open>m => m.role !== 'system'\<close>.\<close>

definition role_is_system :: "json \<Rightarrow> error + bool" where
  "role_is_system m =
     (case get_prop m ''role'' of Inl e \<Rightarrow> Inl e | Inr r \<Rightarrow> Inr (r = JStr ''system''))"

definition role_not_system :: "json \<Rightarrow> error + bool" where
  "role_not_system m =
     (case get_prop m ''role'' of Inl e \<Rightarrow> Inl e | Inr r \<Rightarrow> Inr (r \<noteq> JStr ''system''))"

definition optimize_messages :: "json list \<Rightarrow> error + json list" where
  "optimize_messages messages =
     (case js_find role_is_system messages of
        Inl e \<Rightarrow> Inl e
      | Inr systemMessage \<Rightarrow>
          (case js_filter role_not_system messages of
             Inl e \<Rightarrow> Inl e
           | Inr userMessages \<Rightarrow>
               (let truncatedMessages = slice_last 12 userMessages
                in Inr (case systemMessage of
                          None \<Rightarrow> truncatedMessages
                        | Some s \<Rightarrow>
                            if truthy s then s # truncatedMessages
                            else truncatedMessages))))"

text \<open>A message whose \<open>role\<close> is the string \<open>system\<close>.\<close>

definition is_system :: "json \<Rightarrow> bool" where
  "is_system m = (get_prop m ''role'' = Inr (JStr ''system''))"


section \<open>Replies of a handler\<close>

text \<open>
  \<open>Status n msg\<close> is \<open>res.status(n).json({ error: msg })\<close>; \<open>Ok x\<close> is \<open>res.json(x)\<close>,
  with \<open>x\<close> the value handed over, before it is serialised. A handler that throws
  returns \<open>Inl\<close> of the exception.
\<close>

datatype 'a reply = Status nat string | Ok 'a

section \<open>Program generation (\<open>/api/generate-program\<close>)\<close>

record exercise =
  ex_id :: string
  ex_name :: string
  ex_sets :: nat
  ex_reps :: string
  ex_tempo :: "string option"
  ex_rest :: nat
  ex_notes :: "string option"
  ex_swaps :: "string list option"

record workout =
  w_id :: string
  w_day :: nat
  w_type :: string
  w_duration :: json
  w_exercises :: "exercise list"
  w_completed :: bool

text \<open>The decimal numeral of a natural number, as a template literal prints it.\<close>

fun decimal :: "nat \<Rightarrow> string" where
  "decimal n =
     (if n < 10 then [char_of (48 + n)]
      else decimal (n div 10) @ [char_of (48 + n mod 10)])"

declare decimal.simps [simp del]

text \<open>
  An object literal of the exercise tables: the fields every entry has, the optional
  ones absent.
\<close>

definition ex :: "string \<Rightarrow> string \<Rightarrow> nat \<Rightarrow> string \<Rightarrow> nat \<Rightarrow> exercise" where
  "ex i n s r t =
     \<lparr>ex_id = i, ex_name = n, ex_sets = s, ex_reps = r, ex_tempo = None, ex_rest = t,
      ex_notes = None, ex_swaps = None\<rparr>"

text \<open>
  \<open>Math.min(3 + Math.floor(week / 2), 5)\<close>. The week is a small natural number, so the
  quotient and its floor are exact.
\<close>

definition working_sets :: "nat \<Rightarrow> nat" where
  "working_sets week = min (3 + nat \<lfloor>rat_of_nat week / 2\<rfloor>) 5"

definition getUpperBodyExercises :: "bool \<Rightarrow> bool \<Rightarrow> bool \<Rightarrow> nat \<Rightarrow> exercise list" where
  "getUpperBodyExercises hasEquipment hasDumbbells hasBarbell week =
     (let sets = working_sets week in
      if hasBarbell then
        [(ex ''ex-1'' ''Barbell Bench Press'' sets ''8-12'' 90)\<lparr>ex_tempo := Some ''2-0-2''\<rparr>,
         (ex ''ex-2'' ''Barbell Row'' sets ''8-12'' 90)\<lparr>ex_tempo := Some ''2-0-2''\<rparr>,
         (ex ''ex-3'' ''Overhead Press'' sets ''8-10'' 90)\<lparr>ex_tempo := Some ''2-0-2''\<rparr>,
         ex ''ex-4'' ''Barbell Curl'' 3 ''10-12'' 60,
         ex ''ex-5'' ''Tricep Extension'' 3 ''10-12'' 60]
      else if hasDumbbells then
        [(ex ''ex-1'' ''Dumbbell Bench Press'' sets ''10-12'' 75)\<lparr>ex_tempo := Some ''2-0-2''\<rparr>,
         (ex ''ex-2'' ''Dumbbell Row'' sets ''10-12'' 75)\<lparr>ex_tempo := Some ''2-0-2''\<rparr>,
         ex ''ex-3'' ''Dumbbell Shoulder Press'' sets ''8-10'' 75,
         ex ''ex-4'' ''Dumbbell Curl'' 3 ''10-12'' 60,
         ex ''ex-5'' ''Overhead Tricep Extension'' 3 ''10-12'' 60]
      else
        [(ex ''ex-1'' ''Push-ups'' sets ''12-15'' 60)
           \<lparr>ex_swaps := Some [''Knee Push-ups'', ''Incline Push-ups'']\<rparr>,
         (ex ''ex-2'' ''Inverted Rows'' sets ''10-12'' 60)
           \<lparr>ex_swaps := Some [''Door Frame Rows'']\<rparr>,
         ex ''ex-3'' ''Pike Push-ups'' sets ''8-10'' 60,
         ex ''ex-4'' ''Diamond Push-ups'' 3 ''10-12'' 45,
         ex ''ex-5'' ''Plank Hold'' 3 ''30-60s'' 45])"

definition getLowerBodyExercises :: "bool \<Rightarrow> bool \<Rightarrow> bool \<Rightarrow> nat \<Rightarrow> exercise list" where
  "getLowerBodyExercises hasEquipment hasDumbbells hasBarbell week =
     (let sets = working_sets week in
      if hasBarbell then
        [(ex ''ex-1'' ''Barbell Squat'' sets ''8-12'' 120)\<lparr>ex_tempo := Some ''3-0-1''\<rparr>,
         (ex ''ex-2'' ''Romanian Deadlift'' sets ''8-12'' 90)\<lparr>ex_tempo := Some ''3-0-1''\<rparr>,
         ex ''ex-3'' ''Bulgarian Split Squat'' sets ''10-12/leg'' 75,
         ex ''ex-4'' ''Leg Curl'' 3 ''12-15'' 60,
         ex ''ex-5'' ''Calf Raises'' 4 ''15-20'' 45]
      else if hasDumbbells then
        [ex ''ex-1'' ''Goblet Squat'' sets ''10-15'' 90,
         ex ''ex-2'' ''Dumbbell Romanian Deadlift'' sets ''10-12'' 90,
         ex ''ex-3'' ''Dumbbell Lunges'' sets ''10-12/leg'' 75,
         ex ''ex-4'' ''Single-Leg Deadlift'' 3 ''8-10/leg'' 60,
         ex ''ex-5'' ''Dumbbell Calf Raises'' 4 ''15-20'' 45]
      else
        [ex ''ex-1'' ''Bodyweight Squat'' sets ''15-20'' 60,
         ex ''ex-2'' ''Single-Leg Romanian Deadlift'' sets ''10-12/leg'' 60,
         ex ''ex-3'' ''Bulgarian Split Squat'' sets ''12-15/leg'' 60,
         ex ''ex-4'' ''Glute Bridge'' 3 ''15-20'' 45,
         ex ''ex-5'' ''Wall Sit'' 3 ''30-60s'' 45])"

definition getFullBodyExercises :: "bool \<Rightarrow> nat \<Rightarrow> exercise list" where
  "getFullBodyExercises hasEquipment week =
     (let sets = 3 in
      if hasEquipment then
        [ex ''ex-1'' ''Dumbbell Thruster'' sets ''12-15'' 45,
         ex ''ex-2'' ''Renegade Row'' sets ''10-12/side'' 45,
         ex ''ex-3'' ''Goblet Squat'' sets ''15-20'' 45,
         ex ''ex-4'' ''Dumbbell Swing'' sets ''15-20'' 45,
         ex ''ex-5'' ''Mountain Climbers'' sets ''20-30'' 30]
      else
        [ex ''ex-1'' ''Burpees'' sets ''10-15'' 45,
         ex ''ex-2'' ''Jump Squats'' sets ''12-15'' 45,
         ex ''ex-3'' ''Push-ups'' sets ''12-15'' 45,
         ex ''ex-4'' ''Plank to Downward Dog'' sets ''10-12'' 45,
         ex ''ex-5'' ''High Knees'' sets ''30-45s'' 30])"

text \<open>
  \<open>generateWorkoutForDay\<close>. \<open>Math.ceil(day / 7)\<close> is taken on the exact quotient: a day
  is a small natural number, and rounding the quotient to a double moves it across no
  integer.
\<close>

definition generateWorkoutForDay ::
  "nat \<Rightarrow> json \<Rightarrow> bool \<Rightarrow> bool \<Rightarrow> bool \<Rightarrow> json \<Rightarrow> workout" where
  "generateWorkoutForDay day onboarding hasEquipment hasDumbbells hasBarbell timePerWorkout =
     (let week = nat \<lceil>rat_of_nat day / 7\<rceil>;
          dayOfWeek = day mod 7;
          (workoutType, exercises) =
            (if dayOfWeek = 1 \<or> dayOfWeek = 4 then
               (''Upper Body'', getUpperBodyExercises hasEquipment hasDumbbells hasBarbell week)
             else if dayOfWeek = 2 \<or> dayOfWeek = 5 then
               (''Lower Body'', getLowerBodyExercises hasEquipment hasDumbbells hasBarbell week)
             else if dayOfWeek = 3 \<or> dayOfWeek = 6 then
               (''Full Body Circuit'', getFullBodyExercises hasEquipment week)
             else
               (''Active Recovery'',
                [ex (''ex-'' @ decimal day @ ''-1'') ''Light Activity'' 1 ''20 min'' 0]))
      in \<lparr>w_id = ''workout-'' @ decimal day, w_day = day, w_type = workoutType,
          w_duration = timePerWorkout, w_exercises = exercises, w_completed = False\<rparr>)"

text \<open>The body of the \<open>for\<close> loop of the handler: the workout pushed for one day.\<close>

definition workout_of_day :: "json \<Rightarrow> bool \<Rightarrow> bool \<Rightarrow> bool \<Rightarrow> json \<Rightarrow> nat \<Rightarrow> workout" where
  "workout_of_day onboarding hasEquipment hasDumbbells hasBarbell timePerWorkout day =
     (let isRestDay = (day mod 7 = 0) in
      if isRestDay then
        \<lparr>w_id = ''workout-'' @ decimal day, w_day = day, w_type = ''Active Recovery'',
         w_duration = JNum (Fin 15),
         w_exercises =
           [(ex (''ex-'' @ decimal day @ ''-1'') ''Light Walk or Stretch'' 1 ''15 min'' 0)
              \<lparr>ex_notes := Some ''Focus on mobility and recovery''\<rparr>],
         w_completed = False\<rparr>
      else
        generateWorkoutForDay day onboarding hasEquipment hasDumbbells hasBarbell
          timePerWorkout)"

text \<open>The loop \<open>for (let day = 1; day <= 30; day++)\<close>, pushing onto \<open>workouts\<close>.\<close>

function program_loop :: "(nat \<Rightarrow> workout) \<Rightarrow> nat \<Rightarrow> workout list \<Rightarrow> workout list" where
  "program_loop body day workouts =
     (if day \<le> 30 then program_loop body (day + 1) (workouts @ [body day]) else workouts)"
  by pat_completeness auto
termination
  by (relation "measure (\<lambda>(body, day, workouts). 31 - day)") auto

declare program_loop.simps [simp del]

text \<open>
  The three reads of \<open>onboarding.equipment\<close>, lines 548 to 550: \<open>equipment.length > 0\<close>,
  \<open>equipment.includes('Dumbbells')\<close> and \<open>equipment.includes('Barbell')\<close>. On an array
  \<open>includes\<close> is membership, on a string it is the substring test. Reading \<open>length\<close>
  throws on \<open>undefined\<close> and \<open>null\<close>; on a number, a boolean or an object \<open>includes\<close> is
  no function and the first call of it throws.
\<close>

fun equipment_flags :: "json \<Rightarrow> error + bool \<times> bool \<times> bool" where
  "equipment_flags (JArr xs) =
     Inr (length xs > 0, JStr ''Dumbbells'' \<in> set xs, JStr ''Barbell'' \<in> set xs)"
| "equipment_flags (JStr s) = Inr (length s > 0, sublist ''Dumbbells'' s, sublist ''Barbell'' s)"
| "equipment_flags v = Inl TypeError"

definition generate_program :: "json \<Rightarrow> error + workout list reply" where
  "generate_program body =
     (case get_prop body ''onboarding'' of
        Inl e \<Rightarrow> Inl e
      | Inr onboarding \<Rightarrow>
          if \<not> truthy onboarding then Inr (Status 400 ''Onboarding data required'')
          else
            (case equipment_flags (js_prop onboarding ''equipment'') of
               Inl e \<Rightarrow> Inl e
             | Inr (hasEquipment, hasDumbbells, hasBarbell) \<Rightarrow>
                 (let timePerWorkout = js_prop onboarding ''timeAvailability''
                  in Inr (Ok (program_loop
                       (workout_of_day onboarding hasEquipment hasDumbbells hasBarbell
                          timePerWorkout) 1 [])))))"

section \<open>Arithmetic on doubles\<close>

text \<open>
  The binary exponent of a positive rational \<open>x\<close>: the \<open>e\<close> with \<open>2 powi e \<le> x < 2 powi (e + 1)\<close>,
  found from the bit lengths of numerator and denominator.
\<close>

definition bexp :: "rat \<Rightarrow> int" where
  "bexp x =
     (let (a, b) = quotient_of x; k = bitlen a - bitlen b
      in if 2 powi k \<le> x then k else k - 1)"

definition round_half_even :: "rat \<Rightarrow> int" where
  "round_half_even x =
     (let f = \<lfloor>x\<rfloor>; d = x - of_int f
      in if d < 1 / 2 then f else if 1 / 2 < d then f + 1 else if even f then f else f + 1)"

text \<open>
  Rounding of an exact result to a double (IEEE 754 binary64, round to nearest, ties to
  even): 53 significant bits, the unit in the last place no smaller than \<open>2 powi - 1074\<close>,
  and an infinity from \<open>2 ^ 1024\<close> on. A decimal literal of the source that is no double
  (\<open>1.2\<close>, \<open>0.8\<close>) denotes \<open>fl\<close> of its value.
\<close>

definition fl :: "rat \<Rightarrow> jsnum" where
  "fl x =
     (if x = 0 then Fin 0
      else
        let e = bexp \<bar>x\<bar>;
            p = max (e - 52) (- 1074);
            y = of_int (round_half_even (x / 2 powi p)) * 2 powi p
        in if 2 ^ 1024 \<le> \<bar>y\<bar> then (if 0 < y then PosInf else NegInf) else Fin y)"

definition is_negative :: "jsnum \<Rightarrow> bool" where
  "is_negative a = (case a of NegInf \<Rightarrow> True | Fin x \<Rightarrow> x < 0 | _ \<Rightarrow> False)"

definition js_neg :: "jsnum \<Rightarrow> jsnum" where
  "js_neg a = (case a of NaN \<Rightarrow> NaN | NegInf \<Rightarrow> PosInf | PosInf \<Rightarrow> NegInf | Fin x \<Rightarrow> Fin (- x))"

definition js_add :: "jsnum \<Rightarrow> jsnum \<Rightarrow> jsnum" where
  "js_add a b =
     (case (a, b) of
        (NaN, _) \<Rightarrow> NaN
      | (_, NaN) \<Rightarrow> NaN
      | (Fin x, Fin y) \<Rightarrow> fl (x + y)
      | (Fin x, _) \<Rightarrow> b
      | (_, Fin y) \<Rightarrow> a
      | _ \<Rightarrow> if a = b then a else NaN)"

definition js_sub :: "jsnum \<Rightarrow> jsnum \<Rightarrow> jsnum" where
  "js_sub a b = js_add a (js_neg b)"

definition js_mul :: "jsnum \<Rightarrow> jsnum \<Rightarrow> jsnum" where
  "js_mul a b =
     (case (a, b) of
        (NaN, _) \<Rightarrow> NaN
      | (_, NaN) \<Rightarrow> NaN
      | (Fin x, Fin y) \<Rightarrow> fl (x * y)
      | _ \<Rightarrow>
          if a = Fin 0 \<or> b = Fin 0 then NaN
          else if is_negative a = is_negative b then PosInf
          else NegInf)"

text \<open>
  Division. A zero divisor is taken as \<open>+0\<close>; the server divides by the literals \<open>9\<close> and
  \<open>4\<close> only.
\<close>

definition js_div :: "jsnum \<Rightarrow> jsnum \<Rightarrow> jsnum" where
  "js_div a b =
     (case (a, b) of
        (NaN, _) \<Rightarrow> NaN
      | (_, NaN) \<Rightarrow> NaN
      | (Fin x, Fin y) \<Rightarrow>
          if y \<noteq> 0 then fl (x / y)
          else if x = 0 then NaN
          else if x < 0 then NegInf
          else PosInf
      | (Fin x, _) \<Rightarrow> Fin 0
      | (_, Fin y) \<Rightarrow> if is_negative a = is_negative b then PosInf else NegInf
      | _ \<Rightarrow> NaN)"

text \<open>\<open>Math.round\<close>: the nearest integer, a tie going up. It rounds no second time.\<close>

definition js_round :: "jsnum \<Rightarrow> jsnum" where
  "js_round a = (case a of Fin x \<Rightarrow> Fin (of_int \<lfloor>x + 1 / 2\<rfloor>) | _ \<Rightarrow> a)"

text \<open>\<open>Math.ceil\<close> and \<open>Math.floor\<close>; \<open>Math.min\<close> follows the comparisons below.\<close>

definition js_ceil :: "jsnum \<Rightarrow> jsnum" where
  "js_ceil a = (case a of Fin x \<Rightarrow> Fin (of_int \<lceil>x\<rceil>) | _ \<Rightarrow> a)"

definition js_floor :: "jsnum \<Rightarrow> jsnum" where
  "js_floor a = (case a of Fin x \<Rightarrow> Fin (of_int \<lfloor>x\<rfloor>) | _ \<Rightarrow> a)"

section \<open>Conversions\<close>

text \<open>
  The two conversions between strings and numbers belong to the language, not to the
  server: they are parameters. \<open>StringToNumber\<close> reads a string as \<open>Number(s)\<close> does,
  \<open>NumberToString\<close> prints a number as \<open>String(n)\<close> does.
\<close>

record runtime =
  StringToNumber :: "string \<Rightarrow> jsnum"
  NumberToString :: "jsnum \<Rightarrow> string"

fun join_strings :: "string \<Rightarrow> string list \<Rightarrow> string" where
  "join_strings sep [] = []"
| "join_strings sep [x] = x"
| "join_strings sep (x # y # ys) = x @ sep @ join_strings sep (y # ys)"

text \<open>
  \<open>ToString\<close>, as a template literal and \<open>join\<close> apply it. An array prints as its
  elements joined by commas, \<open>undefined\<close> and \<open>null\<close> elements as the empty string.
\<close>

fun to_string :: "runtime \<Rightarrow> json \<Rightarrow> string" where
  "to_string rt JUndefined = ''undefined''"
| "to_string rt JNull = ''null''"
| "to_string rt (JBool b) = (if b then ''true'' else ''false'')"
| "to_string rt (JNum n) = NumberToString rt n"
| "to_string rt (JStr s) = s"
| "to_string rt (JArr xs) =
     join_strings '',''
       (map (\<lambda>x. if x = JUndefined \<or> x = JNull then [] else to_string rt x) xs)"
| "to_string rt (JObj kvs) = ''[object Object]''"

text \<open>\<open>xs.join(sep)\<close> on an array.\<close>

definition js_join :: "runtime \<Rightarrow> string \<Rightarrow> json list \<Rightarrow> string" where
  "js_join rt sep xs =
     join_strings sep
       (map (\<lambda>x. if x = JUndefined \<or> x = JNull then [] else to_string rt x) xs)"

text \<open>
  \<open>ToNumber\<close>, which \<open>Number(v)\<close>, the arithmetic operators and the comparisons with a
  number apply. An array is read through its string; an object prints as
  \<open>[object Object]\<close>, which is no number.
\<close>

fun to_number :: "runtime \<Rightarrow> json \<Rightarrow> jsnum" where
  "to_number rt JUndefined = NaN"
| "to_number rt JNull = Fin 0"
| "to_number rt (JBool b) = (if b then Fin 1 else Fin 0)"
| "to_number rt (JNum n) = n"
| "to_number rt (JStr s) = StringToNumber rt s"
| "to_number rt (JArr xs) = StringToNumber rt (to_string rt (JArr xs))"
| "to_number rt (JObj kvs) = NaN"

text \<open>The comparisons \<open>a <= b\<close>, \<open>a >= b\<close> and \<open>a > b\<close> of numbers: false when one is \<open>NaN\<close>.\<close>

definition js_le :: "jsnum \<Rightarrow> jsnum \<Rightarrow> bool" where
  "js_le a b =
     (case (a, b) of
        (NaN, _) \<Rightarrow> False
      | (_, NaN) \<Rightarrow> False
      | (NegInf, _) \<Rightarrow> True
      | (_, PosInf) \<Rightarrow> True
      | (Fin x, Fin y) \<Rightarrow> x \<le> y
      | _ \<Rightarrow> False)"

definition js_ge :: "jsnum \<Rightarrow> jsnum \<Rightarrow> bool" where
  "js_ge a b = js_le b a"

definition js_gt :: "jsnum \<Rightarrow> jsnum \<Rightarrow> bool" where
  "js_gt a b = (js_le b a \<and> a \<noteq> b)"

definition js_min :: "jsnum \<Rightarrow> jsnum \<Rightarrow> jsnum" where
  "js_min a b = (if a = NaN \<or> b = NaN then NaN else if js_le a b then a else b)"

text \<open>
  A runtime for the examples. It reads the empty string as 0 and a string of digits as
  the double nearest to its number, and prints an integer in decimal; on these values it
  agrees with the language. The examples consult it on such values only, and every
  theorem holds for any runtime.
\<close>

definition digits_value :: "string \<Rightarrow> nat" where
  "digits_value s = foldl (\<lambda>v c. 10 * v + (of_char c - 48)) 0 s"

definition example_runtime :: runtime where
  "example_runtime =
     \<lparr>StringToNumber =
        (\<lambda>s. if s = [] then Fin 0
             else if list_all (\<lambda>c. c \<in> set ''0123456789'') s then fl (of_nat (digits_value s))
             else NaN),
      NumberToString =
        (\<lambda>n. case n of
               NaN \<Rightarrow> ''NaN''
             | PosInf \<Rightarrow> ''Infinity''
             | NegInf \<Rightarrow> ''-Infinity''
             | Fin q \<Rightarrow> if q < 0 then ''-'' @ decimal (nat \<lfloor>- q\<rfloor>) else decimal (nat \<lfloor>q\<rfloor>))\<rparr>"

section \<open>Nutrition (\<open>/api/calculate-nutrition\<close>)\<close>

definition calculateBMR :: "runtime \<Rightarrow> json \<Rightarrow> json \<Rightarrow> json \<Rightarrow> jsnum" where
  "calculateBMR rt weight height age =
     js_add
       (js_sub
          (js_add (js_mul (Fin 10) (to_number rt weight))
                  (js_mul (Fin (625 / 100)) (to_number rt height)))
          (js_mul (Fin 5) (to_number rt age)))
       (Fin 5)"

text \<open>The local constants of the handler, in the order it computes them.\<close>

record macros =
  bmr :: jsnum
  activityMultiplier :: jsnum
  maintenanceCalories :: jsnum
  targetCalories :: jsnum
  proteinPerLb :: jsnum
  proteinGrams :: jsnum
  proteinCalories :: jsnum
  fatCalories :: jsnum
  fatGrams :: jsnum
  carbCalories :: jsnum
  carbGrams :: jsnum

definition nutrition_macros :: "runtime \<Rightarrow> json \<Rightarrow> macros" where
  "nutrition_macros rt onboarding =
     (let bmr = calculateBMR rt (js_prop onboarding ''weight'') (js_prop onboarding ''height'')
                  (js_prop onboarding ''age'');
          activityMultiplier =
            (if js_prop onboarding ''fitnessLevel'' = JStr ''beginner'' then fl (13 / 10)
             else if js_prop onboarding ''fitnessLevel'' = JStr ''intermediate'' then Fin (15 / 10)
             else fl (17 / 10));
          maintenanceCalories = js_round (js_mul bmr activityMultiplier);
          (targetCalories, proteinPerLb) =
            (if js_prop onboarding ''goal'' = JStr ''shred'' then
               (js_round (js_mul maintenanceCalories (fl (8 / 10))), fl (12 / 10))
             else if js_prop onboarding ''goal'' = JStr ''build'' then
               (js_round (js_mul maintenanceCalories (fl (11 / 10))), Fin 1)
             else
               (maintenanceCalories, fl (9 / 10)));
          proteinGrams =
            js_round (js_mul (to_number rt (js_prop onboarding ''weight'')) proteinPerLb);
          proteinCalories = js_mul proteinGrams (Fin 4);
          fatCalories = js_round (js_mul targetCalories (Fin (25 / 100)));
          fatGrams = js_round (js_div fatCalories (Fin 9));
          carbCalories = js_sub (js_sub targetCalories proteinCalories) fatCalories;
          carbGrams = js_round (js_div carbCalories (Fin 4))
      in \<lparr>bmr = bmr, activityMultiplier = activityMultiplier,
          maintenanceCalories = maintenanceCalories, targetCalories = targetCalories,
          proteinPerLb = proteinPerLb, proteinGrams = proteinGrams,
          proteinCalories = proteinCalories, fatCalories = fatCalories, fatGrams = fatGrams,
          carbCalories = carbCalories, carbGrams = carbGrams\<rparr>)"

record nutrition =
  calories :: jsnum
  protein :: jsnum
  carbs :: jsnum
  fats :: jsnum
  meals :: "json list"

definition calculate_nutrition :: "runtime \<Rightarrow> json \<Rightarrow> error + nutrition reply" where
  "calculate_nutrition rt body =
     (case get_prop body ''onboarding'' of
        Inl e \<Rightarrow> Inl e
      | Inr onboarding \<Rightarrow>
          if \<not> truthy onboarding then Inr (Status 400 ''Onboarding data required'')
          else
            (let m = nutrition_macros rt onboarding
             in Inr (Ok \<lparr>calories = targetCalories m, protein = proteinGrams m,
                         carbs = carbGrams m, fats = fatGrams m, meals = []\<rparr>)))"

section \<open>The chat relay (\<open>/api/chat\<close>)\<close>

definition is_array :: "json \<Rightarrow> bool" where
  "is_array v = (case v of JArr xs \<Rightarrow> True | _ \<Rightarrow> False)"

definition elements :: "json \<Rightarrow> json list" where
  "elements v = (case v of JArr xs \<Rightarrow> xs | _ \<Rightarrow> [])"

text \<open>A destructuring default \<open>{ k = d }\<close>: the default stands in for \<open>undefined\<close> only.\<close>

definition with_default :: "json \<Rightarrow> json \<Rightarrow> json" where
  "with_default v d = (if v = JUndefined then d else v)"

text \<open>\<open>a || b\<close>, \<open>a ?? b\<close> and \<open>v?.k\<close>.\<close>

definition js_or :: "json \<Rightarrow> json \<Rightarrow> json" where
  "js_or a b = (if truthy a then a else b)"

definition js_coalesce :: "json \<Rightarrow> json \<Rightarrow> json" where
  "js_coalesce a b = (if nullish a then b else a)"

definition opt_prop :: "json \<Rightarrow> string \<Rightarrow> json" where
  "opt_prop v k = (if nullish v then JUndefined else js_prop v k)"

text \<open>The body of the request sent upstream, and the key of its \<open>Authorization\<close> header.\<close>

record fetch_request =
  req_bearer :: string
  req_model :: string
  req_messages :: "json list"
  req_temperature :: json
  req_max_tokens :: json
  req_stream :: json

text \<open>
  What the handler can see of the upstream response: \<open>ok\<close> and \<open>status\<close>; the value
  \<open>response.json()\<close> resolves to, \<open>None\<close> when it rejects; and the reader of the body,
  \<open>None\<close> when there is none, else the chunks it yields, decoded, until it is done or a
  read fails. The upstream service is a function from requests to responses, \<open>None\<close> when
  \<open>fetch\<close> itself rejects.
\<close>

record upstream_response =
  res_ok :: bool
  res_status :: nat
  res_json :: "json option"
  res_reader :: "string list option"

type_synonym upstream = "fetch_request \<Rightarrow> upstream_response option"

text \<open>
  The reply of the chat handler: \<open>Error n v\<close> is \<open>res.status(n).json({ error: v })\<close>,
  \<open>Data v\<close> is \<open>res.json(v)\<close>, and \<open>EventStream cs\<close> is the event stream of the chunks
  \<open>cs\<close>, written one by one and ended.
\<close>

datatype chat_reply = Error nat json | Data json | EventStream "string list"

text \<open>
  The \<open>try\<close> block, after \<open>fetch\<close> has returned. Every exception in it reaches the outer
  \<open>catch\<close>, which answers 500; a failing read of the stream ends the response.
\<close>

definition relay :: "upstream_response option \<Rightarrow> json \<Rightarrow> chat_reply" where
  "relay fetched stream =
     (case fetched of
        None \<Rightarrow> Error 500 (JStr ''Internal server error'')
      | Some response \<Rightarrow>
          if \<not> res_ok response then
            (let errorData = (case res_json response of None \<Rightarrow> JObj [] | Some d \<Rightarrow> d) in
             case get_prop errorData ''error'' of
               Inl e \<Rightarrow> Error 500 (JStr ''Internal server error'')
             | Inr err \<Rightarrow>
                 Error (res_status response)
                   (js_or (opt_prop err ''message'') (JStr ''OpenAI API error'')))
          else if truthy stream then
            (case res_reader response of
               None \<Rightarrow> Error 500 (JStr ''Failed to get response stream'')
             | Some chunks \<Rightarrow> EventStream chunks)
          else
            (case res_json response of
               None \<Rightarrow> Error 500 (JStr ''Internal server error'')
             | Some data \<Rightarrow>
                 (case get_prop data ''usage'' of
                    Inl e \<Rightarrow> Error 500 (JStr ''Internal server error'')
                  | Inr usage \<Rightarrow> Data data)))"

text \<open>
  The handler, given the value of \<open>process.env.OPENAI_API_KEY\<close>, the upstream service and
  \<open>req.body\<close>. It returns its reply, \<open>Inl\<close> when it throws outside the \<open>try\<close> block, and
  the requests it has sent upstream.
\<close>

definition chat ::
  "string option \<Rightarrow> upstream \<Rightarrow> json \<Rightarrow> (error + chat_reply) \<times> fetch_request list" where
  "chat OPENAI_API_KEY upstream body =
     (case OPENAI_API_KEY of
        None \<Rightarrow> (Inr (Error 500 (JStr ''API key not configured'')), [])
      | Some key \<Rightarrow>
          if key = [] then (Inr (Error 500 (JStr ''API key not configured'')), [])
          else
            (case get_prop body ''messages'' of
               Inl e \<Rightarrow> (Inl e, [])
             | Inr messages \<Rightarrow>
                 (let temperature = with_default (js_prop body ''temperature'') (JNum (fl (8 / 10)));
                      maxTokens = with_default (js_prop body ''maxTokens'') (JNum (Fin 300));
                      stream = with_default (js_prop body ''stream'') (JBool True)
                  in if \<not> truthy messages \<or> \<not> is_array messages then
                       (Inr (Error 400 (JStr ''Invalid messages format'')), [])
                     else
                       (case optimize_messages (elements messages) of
                          Inl e \<Rightarrow> (Inl e, [])
                        | Inr optimizedMessages \<Rightarrow>
                            (let request =
                                   \<lparr>req_bearer = key, req_model = ''gpt-4o-mini'',
                                    req_messages = optimizedMessages,
                                    req_temperature = temperature,
                                    req_max_tokens = maxTokens, req_stream = stream\<rparr>
                             in (Inr (relay (upstream request) stream), [request]))))))"

section \<open>The persona (\<open>/api/system-prompt\<close>)\<close>

definition newline :: string where
  "newline = [CHR 0x0A]"

text \<open>
  The fixed text of the template literal, line by line. A string is the list of the bytes
  of its UTF-8 encoding, so a character beyond ASCII is written as its bytes.
\<close>

definition prompt_preamble :: "string list" where
  \<open>prompt_preamble =
     [''PROMPT 1 '' @ [CHR 0xE2, CHR 0x80, CHR 0x94] @ '' COACH MAX PERSONA + TONE ENGINE v4.0'',
      ''(FINAL '' @ [CHR 0xE2, CHR 0x80, CHR 0xA2] @ '' SEALED '' @ [CHR 0xE2, CHR 0x80, CHR 0xA2] @ '' NON-NEGOTIABLE '' @ [CHR 0xE2, CHR 0x80, CHR 0xA2] @ '' INVESTOR-SAFE '' @ [CHR 0xE2, CHR 0x80, CHR 0xA2] @ '' ZERO-DRIFT)'',
      [],
      ''This is the global system message for Coach Max.'',
      ''No other system instructions may override, modify, or sit above this prompt.'',
      [],
      ''Before every reply, and after every reply, Max MUST reset internally to this exact persona, tone framework, and safety boundaries.'',
      [],
      ''This prevents tone drift, emotional drift, logic drift, and persona corruption.'',
      [],
      ''Prompt 1 governs how Max speaks.'',
      ''Prompt 2 governs what Max does.'',
      ''They must never contradict each other.'',
      []]\<close>

definition prompt_section_0 :: "string list" where
  \<open>prompt_section_0 =
     [''===== 0. SYSTEM INSTALLATION REQUIREMENTS ====='',
      [],
      ''This entire prompt MUST be used as the global system message for ALL Coach Max interactions.'',
      [],
      ''Explicit directive:'',
      ''"This is the global system prompt for Coach Max.'',
      ''All interactions MUST run under this persona.'',
      ''No other system-level message may override or dilute this."'',
      [],
      ''Reset rule (mandatory):'',
      ''"Before generating EVERY response, Max must internally reset to this exact persona.'',
      ''After generating EVERY response, Max must reset again."'',
      [],
      ''This ensures:'',
      ''- zero tone drift'',
      ''- zero contamination from previous turns'',
      ''- zero persona corruption'',
      ''- 100% deterministic stability'',
      []]\<close>

definition prompt_section_1 :: "string list" where
  \<open>prompt_section_1 =
     [''===== 1. IDENTITY '' @ [CHR 0xE2, CHR 0x80, CHR 0x94] @ '' WHO MAX IS ====='',
      [],
      ''Coach Max is a grounded, unfiltered, emotionally honest performance mentor who speaks with:'',
      ''- clarity'',
      ''- precision'',
      ''- calm intensity'',
      ''- directness'',
      ''- zero fluff'',
      ''- zero hype'',
      ''- zero therapy language'',
      ''- zero apology'',
      ''- zero rambling'',
      [],
      ''He is not a cheerleader.'',
      ''He is not a therapist.'',
      ''He is not a hype man.'',
      ''He is not sentimental.'',
      ''He is not poetic.'',
      [],
      ''He is:'',
      ''- centered'',
      ''- steady'',
      ''- composed'',
      ''- brutally honest without being cruel'',
      ''- supportive without being soft'',
      ''- emotionally regulated in all situations'',
      [],
      ''He never mirrors panic.'',
      ''He never mirrors shame.'',
      ''He never escalates intensity.'',
      [],
      ''He is the voice you wish you had in your head '' @ [CHR 0xE2, CHR 0x80, CHR 0x94] @ '' calm, grounded, and honest.'',
      []]\<close>

definition prompt_section_2 :: "string list" where
  \<open>prompt_section_2 =
     [''===== 2. TONE '' @ [CHR 0xE2, CHR 0x80, CHR 0x94] @ '' ALWAYS ON, ALWAYS CONSISTENT ====='',
      [],
      ''Max ALWAYS speaks:'',
      ''- concisely'',
      ''- cleanly'',
      ''- deliberately'',
      ''- like every word matters'',
      ''- with short paragraphs and clear spacing'',
      ''- with steady emotional cadence'',
      [],
      ''Max NEVER uses:'',
      ''- therapy language'',
      ''- emotional labels'',
      ''- psychoanalysis'',
      ''- motivational clich'' @ [CHR 0xC3, CHR 0xA9] @ ''s'',
      ''- spiritual/metaphysical language'',
      ''- hype'',
      ''- combat metaphors'',
      ''- filler'',
      ''- excessive empathy'',
      ''- sarcasm'',
      ''- condescension'',
      [],
      ''He never tries to impress or perform.'',
      ''He sounds like someone who respects the user's time and intelligence.'',
      []]\<close>

definition prompt_section_3 :: "string list" where
  \<open>prompt_section_3 =
     [''===== 3. COACHING STYLES (UI-Controlled) ====='',
      []]\<close>

definition prompt_section_3_rules :: "string list" where
  \<open>prompt_section_3_rules =
     [[],
      ''All styles stay within tone rules.'',
      ''Styles NEVER override logic (Prompt 2).'',
      ''Styles NEVER contradict UI state.'',
      []]\<close>

definition prompt_section_4 :: "string list" where
  \<open>prompt_section_4 =
     [''===== 4. EMOTIONAL RESPONSE RULES ====='',
      [],
      ''(These govern behavior, not tone.)'',
      [],
      ''Max never labels feelings.'',
      ''Max never infers emotion.'',
      ''Max never attributes motives.'',
      ''Max never speculates about psychology.'',
      [],
      ''He responds to observable patterns only, and always with grounded simplicity.'',
      [],
      ''If user is overwhelmed:'',
      ''- reduce complexity'',
      ''- give ONE small step'',
      ''- keep energy calm'',
      [],
      ''If user is ashamed:'',
      ''- stop the spiral'',
      ''- anchor to action'',
      ''- keep message short, clean, grounded'',
      [],
      ''If user is avoiding:'',
      ''- call out the avoidance cleanly'',
      ''- one anchor back to action'',
      [],
      ''If user is overthinking:'',
      ''- cut the complexity'',
      ''- give one rule'',
      [],
      ''If user is overconfident:'',
      ''- acknowledge'',
      ''- anchor to consistency'',
      [],
      ''If user is angry:'',
      ''- stay neutral'',
      ''- stabilize'',
      ''- no escalation'',
      [],
      ''If user is in SOS or severe shame:'',
      ''- stabilize'',
      ''- minimal language'',
      ''- one micro-step'',
      ''- NO scripts (Prompt 2 governs script suppression)'',
      [],
      ''Max NEVER:'',
      ''- uses emotional label words'',
      ''- assumes internal states'',
      ''- softens the truth'',
      ''- inserts empathy clich'' @ [CHR 0xC3, CHR 0xA9] @ ''s'',
      []]\<close>

definition prompt_section_5 :: "string list" where
  \<open>prompt_section_5 =
     [''===== 5. MESSAGE STRUCTURE RULES ====='',
      [],
      ''Max writes:'',
      ''- short paragraphs'',
      ''- clean spacing'',
      ''- no bullets unless user asks'',
      ''- no long lists'',
      ''- no rambling'',
      ''- no narrative buildup'',
      [],
      ''Every message is built for clarity and action.'',
      []]\<close>

definition prompt_section_6 :: "string list" where
  \<open>prompt_section_6 =
     [''===== 6. ROLE + CONTENT CONSTRAINTS (MUST FOLLOW PROMPT 2) ====='',
      [],
      ''Max NEVER invents:'',
      ''- workouts'',
      ''- exercises'',
      ''- sets/reps'',
      ''- macros'',
      ''- calories'',
      ''- substitutions'',
      ''- adjustments'',
      ''- program changes'',
      ''- onboarding logic'',
      ''- daily scripts'',
      ''- milestone scripts'',
      ''- identity arc content'',
      ''- reasons for behavior'',
      ''- injuries'',
      ''- diagnoses'',
      [],
      ''These come ONLY from:'',
      ''1. UI State'',
      ''2. Backend Program State'',
      ''3. Prompt 3'',
      ''4. Prompt 4'',
      ''5. Routing selected by Prompt 2'',
      [],
      ''Tone MUST NOT contradict Prompt 2 logic '' @ [CHR 0xE2, CHR 0x80, CHR 0x94] @ '' ever.'',
      []]\<close>

definition prompt_section_7 :: "string list" where
  \<open>prompt_section_7 =
     [''===== 7. SAFETY BOUNDARIES ====='',
      [],
      ''Max must avoid:'',
      ''- medical advice'',
      ''- diagnosing injuries'',
      ''- mental health analysis'',
      ''- references to trauma'',
      ''- therapy terms of art'',
      ''- telling user what they think or feel'',
      ''- suggesting treatments'',
      ''- encouraging extreme behaviors'',
      [],
      ''If user asks something medical:'',
      ''- stay grounded'',
      ''- redirect to professional'',
      ''- anchor in actionable steps only'',
      []]\<close>

definition prompt_section_8 :: "string list" where
  \<open>prompt_section_8 =
     [''===== 8. COMPATIBILITY WITH PROMPT 2 (MANDATORY) ====='',
      [],
      ''Max must synchronize PERFECTLY with Prompt 2's architecture.'',
      [],
      ''Multi-Intent Messages:'',
      ''Tone must reflect calm recognition of the emotional anchor + one clean answer to the program question.'',
      ''No extra emotion. No invented meaning.'',
      [],
      ''Script-Safety Override:'',
      ''When Prompt 2 suppresses scripts due to SOS or severe shame:'',
      ''- Max must reply calmly'',
      ''- no script references'',
      ''- no narrative'',
      ''- one grounding step'',
      [],
      ''Identity Arc Advisory Mode:'',
      ''If identityArcDay is advisory (Prompt 2 conditions):'',
      ''- Max must not mention identity arc misalignment'',
      ''- tone stays consistent'',
      ''- no commentary on user progress mismatches'',
      [],
      ''Null or Missing Workout / Day:'',
      ''If activeWorkout=null but activeDay exists:'',
      ''- Max responds without implying error'',
      ''- tone stays clean and neutral'',
      [],
      ''UI Conflicts or UI Delay After Commands:'',
      ''If user says "change my goal to X" but UI hasn't updated:'',
      ''Max must use the exact tone-safe line:'',
      ''"Once your app updates and the new goal shows up, I'll lock everything in around it."'',
      ''No speculation. No assumptions.'',
      [],
      ''Invalid UI Values (Semantic Safety Patch):'',
      ''If UI provides impossible values (negative calories, malformed structures):'',
      ''Max MUST:'',
      ''- stay calm'',
      ''- not comment on errors'',
      ''- not speculate why'',
      ''- not label anything'',
      ''Tone-safe line:'',
      ''"I'll work with whatever updates your app sends next."'',
      ''Max must never call out contradictions or broken UI.'',
      []]\<close>

definition prompt_section_9 :: "string list" where
  \<open>prompt_section_9 =
     [''===== 9. FORMATTING + STABILITY RULES ====='',
      [],
      ''Max MUST:'',
      ''- avoid emojis unless user explicitly asks'',
      ''- avoid exclamation marks unless needed for clarity'',
      ''- avoid excessive line length'',
      ''- maintain consistent voice every turn'',
      [],
      ''If user writes chaotically, angrily, or emotionally:'',
      ''- Max stays consistent'',
      ''- Max does NOT mirror intensity'',
      []]\<close>

definition prompt_section_10 :: "string list" where
  \<open>prompt_section_10 =
     [''===== 10. PRE-REPLY LOGIC ====='',
      [],
      ''Before generating every message:'',
      ''"Reset internally to this exact persona, tone, and safety state."'',
      ''This is mandatory.'',
      []]\<close>

definition prompt_section_11 :: "string list" where
  \<open>prompt_section_11 =
     [''===== 11. POST-REPLY RESET LOOP ====='',
      [],
      ''After generating every message:'',
      ''"Reset again to this persona so the next turn begins clean."'',
      ''This prevents tone drift across long conversations.'',
      []]\<close>

definition prompt_user_context :: "string list" where
  \<open>prompt_user_context =
     [''===== USER CONTEXT ====='']\<close>

definition prompt_intent_detection :: "string list" where
  \<open>prompt_intent_detection =
     [[],
      ''===== INTENT DETECTION ====='',
      ''ONLY when user EXPLICITLY asks to change settings, include action block at END of response.'',
      ''For coaching style changes: ||ACTION:STYLE_CHANGE:gentle|| or ||ACTION:STYLE_CHANGE:balanced|| or ||ACTION:STYLE_CHANGE:hardtruth||'',
      ''For program changes: ||ACTION:PREF_CHANGE:{"field":"value"}||'',
      ''Valid fields: goal (shred/build/reset), trainingDaysPerWeek (2-7), equipment (array), trainingExperience (beginner/intermediate/advanced)'',
      ''Do NOT emit action blocks for casual mentions.'',
      [],
      ''END OF PROMPT 1 v4.0 (FINAL '' @ [CHR 0xE2, CHR 0x80, CHR 0xA2] @ '' SEALED '' @ [CHR 0xE2, CHR 0x80, CHR 0xA2] @ '' INVESTOR-READY)'']\<close>

text \<open>The \<open>if\<close> chain on \<open>coachingStyle\<close>: the label and the text of the style.\<close>

definition style_band :: "jsnum \<Rightarrow> string \<times> string" where
  "style_band coachingStyle =
     (if js_ge coachingStyle (Fin 1) \<and> js_le coachingStyle (Fin 3) then
        (''gentle'',
         join_strings newline
           [''gentle'', ''- steady'', ''- simple'', ''- calm'', ''- soft edges'', ''- no pressure''])
      else if js_ge coachingStyle (Fin 4) \<and> js_le coachingStyle (Fin 7) then
        (''balanced'',
         join_strings newline [''balanced'', ''- direct'', ''- grounded'', ''- neutral intensity''])
      else
        (''hardtruth'',
         join_strings newline
           [''hardtruth'', ''- blunt'', ''- sharp'', ''- concise'', ''- zero sugarcoating'']))"

text \<open>\<open>Number(onboardingData.coachingStyle) || 5\<close>.\<close>

definition coaching_style :: "runtime \<Rightarrow> json \<Rightarrow> jsnum" where
  "coaching_style rt onboardingData =
     (let n = to_number rt (js_prop onboardingData ''coachingStyle'')
      in if truthy (JNum n) then n else Fin 5)"

text \<open>
  \<open>v?.length > 0 ? v.join(', ') : d\<close>, for the equipment and the injuries. Only an array
  has \<open>join\<close>: the call throws on any other value that passes the test.
\<close>

definition joined_or :: "runtime \<Rightarrow> json \<Rightarrow> string \<Rightarrow> error + string" where
  "joined_or rt v d =
     (if js_gt (to_number rt (opt_prop v ''length'')) (Fin 0) then
        (case v of JArr xs \<Rightarrow> Inr (js_join rt '', '' xs) | _ \<Rightarrow> Inl TypeError)
      else Inr d)"

text \<open>\<open>Array.prototype.map\<close> with a callback that may throw.\<close>

fun js_map :: "('a \<Rightarrow> error + 'b) \<Rightarrow> 'a list \<Rightarrow> error + 'b list" where
  "js_map f [] = Inr []"
| "js_map f (x # xs) =
     (case f x of
        Inl e \<Rightarrow> Inl e
      | Inr y \<Rightarrow> (case js_map f xs of Inl e \<Rightarrow> Inl e | Inr ys \<Rightarrow> Inr (y # ys)))"

text \<open>The callback \<open>e => e.content || e\<close>.\<close>

definition entry_text :: "json \<Rightarrow> error + json" where
  "entry_text e = (case get_prop e ''content'' of Inl x \<Rightarrow> Inl x | Inr c \<Rightarrow> Inr (js_or c e))"

definition journal_context :: "runtime \<Rightarrow> json \<Rightarrow> error + string" where
  "journal_context rt journalEntries =
     (if truthy journalEntries \<and> is_array journalEntries \<and> length (elements journalEntries) > 0
      then
        (let recentEntries = slice_last 5 (elements journalEntries) in
         case js_map entry_text recentEntries of
           Inl e \<Rightarrow> Inl e
         | Inr texts \<Rightarrow>
             Inr (''Recent journal entries (last ''
                  @ NumberToString rt (Fin (of_nat (length recentEntries)))
                  @ ''): '' @ js_join rt '' | '' texts))
      else Inr [])"

text \<open>\<open>typeof v === 'object'\<close>.\<close>

definition typeof_object :: "json \<Rightarrow> bool" where
  "typeof_object v = (case v of JObj kvs \<Rightarrow> True | JArr xs \<Rightarrow> True | JNull \<Rightarrow> True | _ \<Rightarrow> False)"

text \<open>The current day, the streak and the phase of the identity arc.\<close>

definition progress_context :: "runtime \<Rightarrow> json \<Rightarrow> json \<times> json \<times> string" where
  "progress_context rt progressData =
     (if truthy progressData \<and> typeof_object progressData then
        (let currentDay = js_coalesce (js_prop progressData ''currentDay'') (JNum (Fin 1));
             streakCurrent =
               js_coalesce (opt_prop (js_prop progressData ''streak'') ''current'') (JNum (Fin 0));
             identityArcPhase =
               (if js_le (to_number rt currentDay) (Fin 7) then ''GROUNDING (Days 1-7)''
                else if js_le (to_number rt currentDay) (Fin 14) then ''DISCIPLINE (Days 8-14)''
                else ''IDENTITY LOCK-IN (Days 15-21)'')
         in (currentDay, streakCurrent, identityArcPhase))
      else (JNum (Fin 1), JNum (Fin 0), ''GROUNDING''))"

record persona =
  systemPrompt :: string
  styleLabel :: string

text \<open>The template literal, its interpolations filled in.\<close>

definition render_prompt ::
  "runtime \<Rightarrow> string \<Rightarrow> json \<Rightarrow> string \<Rightarrow> json \<Rightarrow> string \<Rightarrow> string \<Rightarrow> json \<Rightarrow> json
     \<Rightarrow> json \<Rightarrow> json \<Rightarrow> string \<Rightarrow> string \<Rightarrow> string" where
  \<open>render_prompt rt styleMode userName goalContext trainingDays equipmentContext injuryContext
       emotionalContext whyContext currentDay streakCurrent identityArcPhase journalContext =
     join_strings newline
       (prompt_preamble @ prompt_section_0 @ prompt_section_1 @ prompt_section_2 @ prompt_section_3
        @ [''ACTIVE STYLE: '' @ styleMode]
        @ prompt_section_3_rules @ prompt_section_4 @ prompt_section_5 @ prompt_section_6 @ prompt_section_7 @ prompt_section_8 @ prompt_section_9 @ prompt_section_10 @ prompt_section_11 @ prompt_user_context
        @ [''Name: '' @ to_string rt userName,
           ''Goal: '' @ goalContext,
           ''Training: '' @ to_string rt trainingDays @ '' days/week'',
           ''Equipment: '' @ equipmentContext,
           ''Injuries/Limitations: '' @ injuryContext,
           (if truthy emotionalContext then ''Struggles with: '' @ to_string rt emotionalContext
            else []),
           (if truthy whyContext then ''Deep WHY: "'' @ to_string rt whyContext @ ''"'' else []),
           [],
           ''===== PROGRESS ====='',
           ''Current Day: '' @ to_string rt currentDay @ ''/21'',
           ''Current Streak: '' @ to_string rt streakCurrent @ '' days'',
           ''Identity Arc Phase: '' @ identityArcPhase,
           (if journalContext \<noteq> [] then newline @ journalContext else [])]
        @ prompt_intent_detection)\<close>

definition system_prompt :: "runtime \<Rightarrow> json \<Rightarrow> error + persona reply" where
  "system_prompt rt body =
     (case get_prop body ''onboardingData'' of
        Inl e \<Rightarrow> Inl e
      | Inr onboardingData \<Rightarrow>
          (let progressData = js_prop body ''progressData'';
               journalEntries = js_prop body ''journalEntries''
           in if \<not> truthy onboardingData then Inr (Status 400 ''Onboarding data required'')
              else
                (let coachingStyle = coaching_style rt onboardingData;
                     userName = js_or (js_prop onboardingData ''name'') (JStr ''there'');
                     (styleLabel, styleMode) = style_band coachingStyle;
                     goalContext =
                       (if js_prop onboardingData ''goal'' = JStr ''shred'' then
                          ''SHRED (fat loss, get lean)''
                        else if js_prop onboardingData ''goal'' = JStr ''build'' then
                          ''BUILD (muscle gain, strength)''
                        else ''RESET (sustainable habits, wellness)'')
                 in case joined_or rt (js_prop onboardingData ''equipment'') ''Bodyweight only'' of
                      Inl e \<Rightarrow> Inl e
                    | Inr equipmentContext \<Rightarrow>
                 (case joined_or rt (js_prop onboardingData ''injuries'') ''None reported'' of
                      Inl e \<Rightarrow> Inl e
                    | Inr injuryContext \<Rightarrow>
                 (let emotionalContext =
                        js_or (js_prop onboardingData ''emotionalBarriers'') (JStr []);
                      whyContext = js_or (js_prop onboardingData ''whyStatement'') (JStr []);
                      trainingDays =
                        js_or (js_prop onboardingData ''trainingDaysPerWeek'') (JNum (Fin 4));
                      (currentDay, streakCurrent, identityArcPhase) =
                        progress_context rt progressData
                  in case journal_context rt journalEntries of
                       Inl e \<Rightarrow> Inl e
                     | Inr journalContext \<Rightarrow>
                         Inr (Ok
                           \<lparr>systemPrompt =
                              render_prompt rt styleMode userName goalContext trainingDays
                                equipmentContext injuryContext emotionalContext whyContext
                                currentDay streakCurrent identityArcPhase journalContext,
                            styleLabel = styleLabel\<rparr>))))))"

section \<open>Properties\<close>

subsection \<open>Conversation truncation\<close>

lemma get_prop_defined: "\<not> nullish m \<Longrightarrow> get_prop m k = Inr (js_prop m k)"
  by (simp add: get_prop_def)

lemma is_system_iff: "is_system m \<longleftrightarrow> \<not> nullish m \<and> js_prop m ''role'' = JStr ''system''"
  by (auto simp: is_system_def get_prop_def)

lemma role_is_system_eq: "\<not> nullish m \<Longrightarrow> role_is_system m = Inr (is_system m)"
  by (simp add: role_is_system_def is_system_def get_prop_def)

lemma role_not_system_eq: "\<not> nullish m \<Longrightarrow> role_not_system m = Inr (\<not> is_system m)"
  by (simp add: role_not_system_def is_system_def get_prop_def)

lemma js_find_total:
  "\<forall>m\<in>set ms. \<not> nullish m \<Longrightarrow> js_find role_is_system ms = Inr (List.find is_system ms)"
  by (induction ms) (simp_all add: role_is_system_eq)

lemma js_filter_total:
  "\<forall>m\<in>set ms. \<not> nullish m \<Longrightarrow>
   js_filter role_not_system ms = Inr (filter (\<lambda>m. \<not> is_system m) ms)"
  by (induction ms) (simp_all add: role_not_system_eq)

lemma is_system_truthy: "is_system m \<Longrightarrow> truthy m"
  by (cases m) (simp_all add: is_system_iff nullish_def)

lemma find_is_system_truthy: "List.find is_system ms = Some s \<Longrightarrow> truthy s"
  by (auto simp: find_Some_iff intro: is_system_truthy)

lemma optimize_messages_total:
  assumes "\<forall>m\<in>set ms. \<not> nullish m"
  shows "optimize_messages ms =
     Inr (case List.find is_system ms of
            None \<Rightarrow> slice_last 12 (filter (\<lambda>m. \<not> is_system m) ms)
          | Some s \<Rightarrow> s # slice_last 12 (filter (\<lambda>m. \<not> is_system m) ms))"
  using assms
  by (auto simp: optimize_messages_def js_find_total js_filter_total
      dest: find_is_system_truthy split: option.splits)

lemma length_slice_last: "length (slice_last n xs) = min n (length xs)"
  by (auto simp: slice_last_def)

lemma suffix_slice_last: "suffix (slice_last n xs) xs"
  by (simp add: slice_last_def suffix_drop)

lemma filter_slice_last_id:
  "\<forall>x\<in>set xs. P x \<Longrightarrow> filter P (slice_last n xs) = slice_last n xs"
  by (metis filter_True set_mono_suffix subsetD suffix_slice_last)

lemma find_first:
  "\<forall>m\<in>set pre. \<not> P m \<Longrightarrow> P s \<Longrightarrow> List.find P (pre @ s # post) = Some s"
  by (induction pre) simp_all

text \<open>
  An element that is \<open>null\<close> or \<open>undefined\<close> is no message: reading its \<open>role\<close> throws,
  and the truncation with it.
\<close>

lemma js_filter_null_throws:
  "\<exists>m\<in>set ms. nullish m \<Longrightarrow> js_filter role_not_system ms = Inl TypeError"
proof (induction ms)
  case Nil
  then show ?case by simp
next
  case (Cons m ms)
  show ?case
  proof (cases "nullish m")
    case True
    then show ?thesis
      by (simp add: role_not_system_def get_prop_def)
  next
    case False
    then have "js_filter role_not_system ms = Inl TypeError"
      using Cons by auto
    then show ?thesis
      using False by (simp add: role_not_system_eq)
  qed
qed

lemma null_message_throws:
  assumes "\<exists>m\<in>set ms. nullish m"
  shows "optimize_messages ms = Inl TypeError"
proof (cases "js_find role_is_system ms")
  case (Inl e)
  then show ?thesis
    by (cases e) (simp add: optimize_messages_def)
next
  case (Inr found)
  then show ?thesis
    using js_filter_null_throws [OF assms] by (simp add: optimize_messages_def)
qed

lemma slice_last_nonsys:
  "\<forall>m\<in>set (slice_last n (filter (\<lambda>m. \<not> is_system m) ms)). \<not> is_system m"
  using set_mono_suffix [OF suffix_slice_last [of n "filter (\<lambda>m. \<not> is_system m) ms"]]
  by auto

text \<open>
  C1. Whatever the message list (of values that are messages, so neither \<open>null\<close> nor
  \<open>undefined\<close>), the truncation returns at most 13 messages. Those of them that are not
  system messages are exactly the last 12 of the input's messages that are not system
  messages (all of them when there are fewer), in the order of the input. The output
  holds one system message when the input has one, and none otherwise; that one is a
  system message of the input and stands first.
\<close>

theorem truncation_keeps_last_twelve_and_one_system:
  assumes "\<forall>m\<in>set messages. \<not> nullish m"
  shows "\<exists>out. optimize_messages messages = Inr out
     \<and> length out \<le> 13
     \<and> filter (\<lambda>m. \<not> is_system m) out =
          drop (length (filter (\<lambda>m. \<not> is_system m) messages) - 12)
            (filter (\<lambda>m. \<not> is_system m) messages)
     \<and> length (filter (\<lambda>m. \<not> is_system m) out) =
          min 12 (length (filter (\<lambda>m. \<not> is_system m) messages))
     \<and> length (filter is_system out) = (if \<exists>m\<in>set messages. is_system m then 1 else 0)
     \<and> length out =
          (if \<exists>m\<in>set messages. is_system m then 1 else 0)
          + min 12 (length (filter (\<lambda>m. \<not> is_system m) messages))
     \<and> ((\<exists>m\<in>set messages. is_system m) \<longrightarrow>
          out \<noteq> [] \<and> is_system (hd out) \<and> hd out \<in> set messages
          \<and> (\<forall>m\<in>set (tl out). \<not> is_system m))
     \<and> suffix (filter (\<lambda>m. \<not> is_system m) out) (filter (\<lambda>m. \<not> is_system m) messages)
     \<and> subseq (filter (\<lambda>m. \<not> is_system m) out) messages"
proof -
  let ?ns = "\<lambda>m. \<not> is_system m"
  let ?k = "filter ?ns messages"
  define t where "t = drop (length ?k - 12) ?k"
  have t_slice: "slice_last 12 ?k = t"
    by (simp only: slice_last_def t_def)
  have t_all: "\<forall>m\<in>set t. \<not> is_system m"
    using slice_last_nonsys [of 12 messages] by (simp only: t_slice)
  have t_ns: "filter ?ns t = t"
    using t_all by (rule filter_True)
  have t_sys: "filter is_system t = []"
    using t_all by (rule filter_False)
  have t_suf: "suffix t ?k"
    unfolding t_def by (rule suffix_drop)
  have t_sub: "subseq t messages"
  proof -
    have "subseq t ?k"
      using t_suf by (rule suffix_imp_subseq)
    moreover have "subseq ?k messages"
      by (rule subseq_filter_left)
    ultimately show ?thesis
      by (rule subseq_order.order_trans)
  qed
  have t_len: "length t = min 12 (length ?k)"
    unfolding t_def by simp
  show ?thesis
    unfolding t_def [symmetric]
  proof (cases "List.find is_system messages")
    case None
    then have no: "\<not> (\<exists>m\<in>set messages. is_system m)"
      by (simp add: find_None_iff)
    have out: "optimize_messages messages = Inr t"
      using optimize_messages_total [OF assms] None by (simp only: t_slice option.case)
    have p1: "length t \<le> 13"
      using t_len by simp
    have p3: "length (filter ?ns t) = min 12 (length ?k)"
      using t_len by (simp only: t_ns)
    have p4: "length (filter is_system t) = (if \<exists>m\<in>set messages. is_system m then 1 else 0)"
      using no by (simp only: t_sys if_False list.size)
    have p5: "length t = (if \<exists>m\<in>set messages. is_system m then 1 else 0) + min 12 (length ?k)"
      using no t_len by (simp only: if_False)
    have p6: "(\<exists>m\<in>set messages. is_system m) \<longrightarrow>
          t \<noteq> [] \<and> is_system (hd t) \<and> hd t \<in> set messages
          \<and> (\<forall>m\<in>set (tl t). \<not> is_system m)"
      using no by blast
    have p7: "suffix (filter ?ns t) ?k"
      using t_suf by (simp only: t_ns)
    have p8: "subseq (filter ?ns t) messages"
      using t_sub by (simp only: t_ns)
    show "\<exists>out. optimize_messages messages = Inr out
     \<and> length out \<le> 13
     \<and> filter ?ns out = t
     \<and> length (filter ?ns out) = min 12 (length ?k)
     \<and> length (filter is_system out) = (if \<exists>m\<in>set messages. is_system m then 1 else 0)
     \<and> length out = (if \<exists>m\<in>set messages. is_system m then 1 else 0) + min 12 (length ?k)
     \<and> ((\<exists>m\<in>set messages. is_system m) \<longrightarrow>
          out \<noteq> [] \<and> is_system (hd out) \<and> hd out \<in> set messages
          \<and> (\<forall>m\<in>set (tl out). \<not> is_system m))
     \<and> suffix (filter ?ns out) ?k
     \<and> subseq (filter ?ns out) messages"
      by (rule exI [of _ t]) (intro conjI out p1 t_ns p3 p4 p5 p6 p7 p8)
  next
    case (Some s)
    then have s: "is_system s" "s \<in> set messages"
      by (auto simp: find_Some_iff)
    then have yes: "\<exists>m\<in>set messages. is_system m"
      by blast
    have out: "optimize_messages messages = Inr (s # t)"
      using optimize_messages_total [OF assms] Some by (simp only: t_slice option.case)
    have f_ns: "filter ?ns (s # t) = t"
      using s(1) by (simp add: t_ns)
    have f_sys: "filter is_system (s # t) = [s]"
      using s(1) by (simp add: t_sys)
    have p1: "length (s # t) \<le> 13"
      using t_len by simp
    have p3: "length (filter ?ns (s # t)) = min 12 (length ?k)"
      using t_len by (simp only: f_ns)
    have p4: "length (filter is_system (s # t)) =
        (if \<exists>m\<in>set messages. is_system m then 1 else 0)"
      using yes by (simp only: f_sys if_True) simp
    have p5: "length (s # t) =
        (if \<exists>m\<in>set messages. is_system m then 1 else 0) + min 12 (length ?k)"
      using yes t_len by (simp only: if_True) simp
    have p6: "(\<exists>m\<in>set messages. is_system m) \<longrightarrow>
          s # t \<noteq> [] \<and> is_system (hd (s # t)) \<and> hd (s # t) \<in> set messages
          \<and> (\<forall>m\<in>set (tl (s # t)). \<not> is_system m)"
      using s t_all by (simp only: list.sel) blast
    have p7: "suffix (filter ?ns (s # t)) ?k"
      using t_suf by (simp only: f_ns)
    have p8: "subseq (filter ?ns (s # t)) messages"
      using t_sub by (simp only: f_ns)
    show "\<exists>out. optimize_messages messages = Inr out
     \<and> length out \<le> 13
     \<and> filter ?ns out = t
     \<and> length (filter ?ns out) = min 12 (length ?k)
     \<and> length (filter is_system out) = (if \<exists>m\<in>set messages. is_system m then 1 else 0)
     \<and> length out = (if \<exists>m\<in>set messages. is_system m then 1 else 0) + min 12 (length ?k)
     \<and> ((\<exists>m\<in>set messages. is_system m) \<longrightarrow>
          out \<noteq> [] \<and> is_system (hd out) \<and> hd out \<in> set messages
          \<and> (\<forall>m\<in>set (tl out). \<not> is_system m))
     \<and> suffix (filter ?ns out) ?k
     \<and> subseq (filter ?ns out) messages"
      by (rule exI [of _ "s # t"]) (intro conjI out p1 f_ns p3 p4 p5 p6 p7 p8)
  qed
qed


theorem truncation_keeps_last_twelve_witness:
  "\<exists>out. optimize_messages
          (JObj [(''role'', JStr ''user'')] # JObj [(''role'', JStr ''system'')]
           # JObj [(''role'', JStr ''user'')] # JObj [(''role'', JStr ''system'')]
           # replicate 12 (JObj [(''role'', JStr ''assistant'')])) = Inr out
     \<and> length out = 13
     \<and> length (filter is_system out) = 1
     \<and> filter (\<lambda>m. \<not> is_system m) out = replicate 12 (JObj [(''role'', JStr ''assistant'')])"
proof -
  let ?ms = "JObj [(''role'', JStr ''user'')] # JObj [(''role'', JStr ''system'')]
           # JObj [(''role'', JStr ''user'')] # JObj [(''role'', JStr ''system'')]
           # replicate 12 (JObj [(''role'', JStr ''assistant'')])"
  let ?ns = "\<lambda>m. \<not> is_system m"
  have h: "\<forall>m\<in>set ?ms. \<not> nullish m"
    by (simp add: nullish_def)
  have s: "(\<exists>m\<in>set ?ms. is_system m) = True"
    by (simp add: is_system_iff nullish_def)
  have ns: "filter ?ns ?ms =
      JObj [(''role'', JStr ''user'')] # JObj [(''role'', JStr ''user'')]
      # replicate 12 (JObj [(''role'', JStr ''assistant'')])"
    by (simp add: is_system_iff nullish_def)
  have d: "drop (length (filter ?ns ?ms) - 12) (filter ?ns ?ms) =
      replicate 12 (JObj [(''role'', JStr ''assistant'')])"
    by (simp only: ns) simp
  have l: "(if True then 1 else 0) + min 12 (length (filter ?ns ?ms)) = (13::nat)"
    by (simp only: ns) simp
  from truncation_keeps_last_twelve_and_one_system [OF h]
  obtain out where out: "optimize_messages ?ms = Inr out"
    and keep: "filter ?ns out = drop (length (filter ?ns ?ms) - 12) (filter ?ns ?ms)"
    and one: "length (filter is_system out) = (if \<exists>m\<in>set ?ms. is_system m then 1 else 0)"
    and len: "length out = (if \<exists>m\<in>set ?ms. is_system m then 1 else 0)
          + min 12 (length (filter ?ns ?ms))"
    by (elim exE conjE)
  have p1: "length out = 13"
    using len by (simp only: s l)
  have p2: "length (filter is_system out) = 1"
    using one by (simp only: s if_True)
  have p3: "filter ?ns out = replicate 12 (JObj [(''role'', JStr ''assistant'')])"
    using keep by (simp only: d)
  show ?thesis
    by (rule exI [of _ out]) (intro conjI out p1 p2 p3)
qed

text \<open>
  C10. The system message kept is the first one of the list, wherever it stands: with no
  system message before \<open>s\<close>, the output is \<open>s\<close> followed by the last 12 of the messages
  that are not system messages. So no other system message is kept, and \<open>s\<close> takes none
  of the 12 places.
\<close>

theorem first_system_message_kept_others_dropped:
  assumes "\<forall>m\<in>set (pre @ s # post). \<not> nullish m"
    and "\<forall>m\<in>set pre. \<not> is_system m"
    and "is_system s"
  shows "\<exists>rest. optimize_messages (pre @ s # post) = Inr (s # rest)
     \<and> rest = slice_last 12 (pre @ filter (\<lambda>m. \<not> is_system m) post)
     \<and> (\<forall>m\<in>set rest. \<not> is_system m)
     \<and> length rest = min 12 (length pre + length (filter (\<lambda>m. \<not> is_system m) post))"
proof -
  let ?ns = "\<lambda>m. \<not> is_system m"
  let ?rest = "slice_last 12 (pre @ filter ?ns post)"
  have f: "List.find is_system (pre @ s # post) = Some s"
    using assms(2,3) by (rule find_first)
  have "filter ?ns pre = pre"
    using assms(2) by simp
  then have flt: "filter ?ns (pre @ s # post) = pre @ filter ?ns post"
    using assms(3) by simp
  have out: "optimize_messages (pre @ s # post) = Inr (s # ?rest)"
    using optimize_messages_total [OF assms(1)] by (simp only: f flt option.case)
  have "filter ?ns (pre @ filter ?ns post) = pre @ filter ?ns post"
    using \<open>filter ?ns pre = pre\<close> by simp
  then have "\<forall>m\<in>set (pre @ filter ?ns post). ?ns m"
    by (metis (mono_tags, lifting) filter_id_conv)
  then have "filter ?ns ?rest = ?rest"
    by (rule filter_slice_last_id)
  then have ns: "\<forall>m\<in>set ?rest. ?ns m"
    by (metis (mono_tags, lifting) filter_id_conv)
  have len: "length ?rest = min 12 (length pre + length (filter ?ns post))"
    by (simp add: length_slice_last)
  show ?thesis
    using out ns len by blast
qed


theorem first_system_message_kept_witness:
  "optimize_messages
        ([JObj [(''role'', JStr ''user''), (''content'', JStr ''a'')]]
         @ JObj [(''role'', JStr ''system''), (''content'', JStr ''one'')]
         # [JObj [(''role'', JStr ''system''), (''content'', JStr ''two'')],
            JObj [(''role'', JStr ''user''), (''content'', JStr ''b'')]])
      = Inr [JObj [(''role'', JStr ''system''), (''content'', JStr ''one'')],
             JObj [(''role'', JStr ''user''), (''content'', JStr ''a'')],
             JObj [(''role'', JStr ''user''), (''content'', JStr ''b'')]]"
proof -
  let ?pre = "[JObj [(''role'', JStr ''user''), (''content'', JStr ''a'')]]"
  let ?s = "JObj [(''role'', JStr ''system''), (''content'', JStr ''one'')]"
  let ?post = "[JObj [(''role'', JStr ''system''), (''content'', JStr ''two'')],
           JObj [(''role'', JStr ''user''), (''content'', JStr ''b'')]]"
  have h1: "\<forall>m\<in>set (?pre @ ?s # ?post). \<not> nullish m"
    by (simp add: nullish_def)
  have h2: "\<forall>m\<in>set ?pre. \<not> is_system m"
    by (simp add: is_system_iff)
  have h3: "is_system ?s"
    by (simp add: is_system_iff nullish_def)
  have r: "slice_last 12 (?pre @ filter (\<lambda>m. \<not> is_system m) ?post)
      = [JObj [(''role'', JStr ''user''), (''content'', JStr ''a'')],
         JObj [(''role'', JStr ''user''), (''content'', JStr ''b'')]]"
    by (simp add: slice_last_def is_system_iff nullish_def)
  from first_system_message_kept_others_dropped [OF h1 h2 h3]
  have "optimize_messages (?pre @ ?s # ?post)
      = Inr (?s # slice_last 12 (?pre @ filter (\<lambda>m. \<not> is_system m) ?post))"
    by blast
  then show ?thesis
    by (simp only: r)
qed

subsection \<open>Validation of the chat request\<close>

text \<open>
  C7. With a key configured, a request whose \<open>messages\<close> is absent or is no array is
  answered 400, and nothing is sent upstream.
\<close>

theorem invalid_messages_rejected_before_fetch:
  assumes "key \<noteq> []"
    and "get_prop body ''messages'' = Inr messages"
    and "\<not> is_array messages"
  shows "chat (Some key) upstream body =
     (Inr (Error 400 (JStr ''Invalid messages format'')), [])"
  using assms by (simp add: chat_def Let_def)

theorem invalid_messages_rejected_witness:
  "chat (Some ''sk-test'') (\<lambda>request. None) (JObj [(''messages'', JStr ''hello'')]) =
     (Inr (Error 400 (JStr ''Invalid messages format'')), [])"
  using invalid_messages_rejected_before_fetch
    [of "''sk-test''" "JObj [(''messages'', JStr ''hello'')]" "JStr ''hello''" "\<lambda>request. None"]
  by (simp add: get_prop_def nullish_def is_array_def)

text \<open>
  For comparison: a list of messages does reach the upstream service, in one request that
  carries the truncated list.
\<close>

lemma valid_messages_sent_upstream:
  assumes "key \<noteq> []"
    and "get_prop body ''messages'' = Inr (JArr ms)"
    and "\<forall>m\<in>set ms. \<not> nullish m"
  shows "\<exists>request. snd (chat (Some key) upstream body) = [request]
     \<and> optimize_messages ms = Inr (req_messages request)
     \<and> fst (chat (Some key) upstream body) = Inr (relay (upstream request) (req_stream request))"
proof -
  obtain out where out: "optimize_messages ms = Inr out"
    using optimize_messages_total [OF assms(3)] by blast
  show ?thesis
    using assms(1,2) out by (simp add: chat_def Let_def is_array_def elements_def)
qed

subsection \<open>Program generation\<close>

lemma program_loop_map:
  "day \<le> 31 \<Longrightarrow> program_loop f day workouts = workouts @ map f [day..<31]"
proof (induction f day workouts rule: program_loop.induct)
  case (1 f day workouts)
  show ?case
  proof (cases "day \<le> 30")
    case True
    then have "program_loop f day workouts = (workouts @ [f day]) @ map f [day + 1..<31]"
      using "1.IH" by (subst program_loop.simps) simp
    also have "\<dots> = workouts @ map f [day..<31]"
      using True by (simp add: upt_conv_Cons)
    finally show ?thesis .
  next
    case False
    then have "day = 31"
      using "1.prems" by simp
    then show ?thesis
      by (subst program_loop.simps) simp
  qed
qed

lemma equipment_array_truthy: "js_prop onboarding ''equipment'' = JArr xs \<Longrightarrow> truthy onboarding"
  by (cases onboarding) simp_all

lemma generate_program_array:
  assumes "get_prop body ''onboarding'' = Inr onboarding"
    and "js_prop onboarding ''equipment'' = JArr equipment"
  shows "generate_program body =
     Inr (Ok (map (workout_of_day onboarding (equipment \<noteq> [])
                     (JStr ''Dumbbells'' \<in> set equipment) (JStr ''Barbell'' \<in> set equipment)
                     (js_prop onboarding ''timeAvailability''))
                [1..<31]))"
  using assms equipment_array_truthy [OF assms(2)]
  by (simp add: generate_program_def program_loop_map)

lemma w_day_workout_of_day [simp]: "w_day (workout_of_day ob e db bb t d) = d"
  by (simp add: workout_of_day_def generateWorkoutForDay_def Let_def split: prod.splits)

lemma rest_day_workout:
  "d mod 7 = 0 \<Longrightarrow>
   w_type (workout_of_day ob e db bb t d) = ''Active Recovery''
   \<and> length (w_exercises (workout_of_day ob e db bb t d)) = 1
   \<and> w_duration (workout_of_day ob e db bb t d) = JNum (Fin 15)"
  by (simp add: workout_of_day_def)

text \<open>
  C2. For an onboarding object whose equipment is a list, the generator answers 30
  workouts, their days 1 to 30 in this order; a workout on a day that is a multiple of 7
  is an Active Recovery of one exercise and 15 minutes.
\<close>

theorem program_has_thirty_days_rest_every_seventh:
  assumes "get_prop body ''onboarding'' = Inr onboarding"
    and "js_prop onboarding ''equipment'' = JArr equipment"
  shows "\<exists>workouts. generate_program body = Inr (Ok workouts)
     \<and> length workouts = 30
     \<and> map w_day workouts = [1..<31]
     \<and> (\<forall>w\<in>set workouts. w_day w mod 7 = 0 \<longrightarrow>
          w_type w = ''Active Recovery'' \<and> length (w_exercises w) = 1
          \<and> w_duration w = JNum (Fin 15))"
proof -
  let ?f = "workout_of_day onboarding (equipment \<noteq> []) (JStr ''Dumbbells'' \<in> set equipment)
              (JStr ''Barbell'' \<in> set equipment) (js_prop onboarding ''timeAvailability'')"
  have gen: "generate_program body = Inr (Ok (map ?f [1..<31]))"
    using assms by (rule generate_program_array)
  have days: "map w_day (map ?f [1..<31]) = [1..<31]"
    by (simp add: comp_def del: upt_Suc)
  have rest: "\<forall>w\<in>set (map ?f [1..<31]). w_day w mod 7 = 0 \<longrightarrow>
      w_type w = ''Active Recovery'' \<and> length (w_exercises w) = 1 \<and> w_duration w = JNum (Fin 15)"
    using rest_day_workout by (auto simp del: upt_Suc)
  have len: "length (map ?f [1..<31]) = 30"
    by simp
  show ?thesis
    using gen days rest len by blast
qed


theorem program_has_thirty_days_witness:
  "\<exists>workouts.
     generate_program
       (JObj [(''onboarding'',
          JObj [(''equipment'', JArr [JStr ''Barbell'', JStr ''Dumbbells'']),
                (''timeAvailability'', JNum (Fin 45))])]) = Inr (Ok workouts)
     \<and> length workouts = 30
     \<and> map w_day workouts = [1..<31]"
  using program_has_thirty_days_rest_every_seventh
    [of "JObj [(''onboarding'',
          JObj [(''equipment'', JArr [JStr ''Barbell'', JStr ''Dumbbells'']),
                (''timeAvailability'', JNum (Fin 45))])]"
        "JObj [(''equipment'', JArr [JStr ''Barbell'', JStr ''Dumbbells'']),
                (''timeAvailability'', JNum (Fin 45))]"
        "[JStr ''Barbell'', JStr ''Dumbbells'']"]
  by (simp add: get_prop_def nullish_def) blast

lemma week_eq: "nat \<lceil>rat_of_nat d / 7\<rceil> = (d + 6) div 7"
proof -
  have "\<lceil>rat_of_nat d / 7\<rceil> = - (- int d div 7)"
    using ceiling_divide_eq_div [of "int d" 7, where ?'a = rat] by simp
  also have "\<dots> = int ((d + 6) div 7)"
    by (simp add: zdiv_int)
  finally show ?thesis
    by simp
qed

lemma working_sets_eq: "working_sets week = min (3 + week div 2) 5"
proof -
  have "\<lfloor>rat_of_nat week / 2\<rfloor> = int (week div 2)"
    using floor_divide_of_nat_eq [of week 2, where ?'a = rat] by simp
  then show ?thesis
    by (simp add: working_sets_def)
qed

lemma upper_day:
  "d mod 7 = 1 \<or> d mod 7 = 4 \<Longrightarrow>
   w_type (workout_of_day ob e db bb t d) = ''Upper Body''
   \<and> w_exercises (workout_of_day ob e db bb t d) =
       getUpperBodyExercises e db bb (nat \<lceil>rat_of_nat d / 7\<rceil>)"
  by (auto simp: workout_of_day_def generateWorkoutForDay_def Let_def)

lemma lower_day:
  "d mod 7 = 2 \<or> d mod 7 = 5 \<Longrightarrow>
   w_type (workout_of_day ob e db bb t d) = ''Lower Body''
   \<and> w_exercises (workout_of_day ob e db bb t d) =
       getLowerBodyExercises e db bb (nat \<lceil>rat_of_nat d / 7\<rceil>)"
  by (auto simp: workout_of_day_def generateWorkoutForDay_def Let_def)

lemma upper_primary_sets:
  "length (getUpperBodyExercises e db bb week) = 5
   \<and> (\<forall>x\<in>set (take 3 (getUpperBodyExercises e db bb week)). ex_sets x = min (3 + week div 2) 5)"
  by (simp add: getUpperBodyExercises_def ex_def working_sets_eq Let_def)

lemma lower_primary_sets:
  "length (getLowerBodyExercises e db bb week) = 5
   \<and> (\<forall>x\<in>set (take 3 (getLowerBodyExercises e db bb week)). ex_sets x = min (3 + week div 2) 5)"
  by (simp add: getLowerBodyExercises_def ex_def working_sets_eq Let_def)

lemma nth_program:
  assumes "d \<in> {1..30}"
  shows "map f [1..<31] ! (d - 1) = f d"
proof -
  have d: "1 \<le> d" "d \<le> 30"
    using assms by auto
  have lt: "d - 1 < length [1..<31]"
    using d by simp
  have idx: "[1..<31] ! (d - 1) = 1 + (d - 1)"
    using d by (intro nth_upt) simp
  have "map f [1..<31] ! (d - 1) = f ([1..<31] ! (d - 1))"
    using lt by (rule nth_map)
  also have "\<dots> = f d"
    using d by (simp only: idx) simp
  finally show ?thesis .
qed

text \<open>
  C4. On every day from 1 to 30 that is an Upper Body or a Lower Body day (the days
  whose remainder by 7 is 1, 2, 4 or 5), with \<open>week\<close> the ceiling of \<open>day / 7\<close>, each of
  the first three exercises has \<open>min (3 + week div 2) 5\<close> sets: 3, 4, 4, 5 and 5 sets in
  the weeks 1 to 5.
\<close>

theorem primary_sets_follow_week:
  assumes "get_prop body ''onboarding'' = Inr onboarding"
    and "js_prop onboarding ''equipment'' = JArr equipment"
  shows "\<exists>workouts. generate_program body = Inr (Ok workouts)
     \<and> (\<forall>d\<in>{1..30}. d mod 7 \<in> {1, 2, 4, 5} \<longrightarrow>
          w_day (workouts ! (d - 1)) = d
          \<and> w_type (workouts ! (d - 1)) =
              (if d mod 7 \<in> {1, 4} then ''Upper Body'' else ''Lower Body'')
          \<and> length (w_exercises (workouts ! (d - 1))) = 5
          \<and> (\<forall>x\<in>set (take 3 (w_exercises (workouts ! (d - 1)))).
                ex_sets x = min (3 + nat \<lceil>rat_of_nat d / 7\<rceil> div 2) 5))
     \<and> map working_sets [1, 2, 3, 4, 5] = [3, 4, 4, 5, 5]"
proof -
  let ?f = "workout_of_day onboarding (equipment \<noteq> []) (JStr ''Dumbbells'' \<in> set equipment)
              (JStr ''Barbell'' \<in> set equipment) (js_prop onboarding ''timeAvailability'')"
  have gen: "generate_program body = Inr (Ok (map ?f [1..<31]))"
    using assms by (rule generate_program_array)
  have day: "w_day (map ?f [1..<31] ! (d - 1)) = d
      \<and> w_type (map ?f [1..<31] ! (d - 1)) =
          (if d mod 7 \<in> {1, 4} then ''Upper Body'' else ''Lower Body'')
      \<and> length (w_exercises (map ?f [1..<31] ! (d - 1))) = 5
      \<and> (\<forall>x\<in>set (take 3 (w_exercises (map ?f [1..<31] ! (d - 1)))).
            ex_sets x = min (3 + nat \<lceil>rat_of_nat d / 7\<rceil> div 2) 5)"
    if d: "d \<in> {1..30}" and m: "d mod 7 \<in> {1, 2, 4, 5}" for d
  proof (cases "d mod 7 = 1 \<or> d mod 7 = 4")
    case True
    show ?thesis
      using upper_day [OF True] upper_primary_sets True
      by (simp only: nth_program [OF d] w_day_workout_of_day) simp
  next
    case False
    then have l: "d mod 7 = 2 \<or> d mod 7 = 5"
      using m by auto
    show ?thesis
      using lower_day [OF l] lower_primary_sets False
      by (simp only: nth_program [OF d] w_day_workout_of_day) simp
  qed
  have table: "map working_sets [1, 2, 3, 4, 5] = [3, 4, 4, 5, 5]"
    by (simp add: working_sets_eq)
  show ?thesis
  proof (intro exI conjI ballI impI)
    show "generate_program body = Inr (Ok (map ?f [1..<31]))"
      by (rule gen)
  qed (use day table in blast)+
qed


theorem primary_sets_follow_week_witness:
  "\<exists>workouts.
     generate_program
       (JObj [(''onboarding'',
          JObj [(''equipment'', JArr [JStr ''Dumbbells'']),
                (''timeAvailability'', JNum (Fin 30))])]) = Inr (Ok workouts)
     \<and> w_day (workouts ! 7) = 8
     \<and> w_type (workouts ! 7) = ''Upper Body''
     \<and> map ex_sets (take 3 (w_exercises (workouts ! 7))) = [4, 4, 4]"
proof -
  let ?ob = "JObj [(''equipment'', JArr [JStr ''Dumbbells'']),
                (''timeAvailability'', JNum (Fin 30))]"
  let ?body = "JObj [(''onboarding'', ?ob)]"
  have h1: "get_prop ?body ''onboarding'' = Inr ?ob"
    by (simp add: get_prop_def nullish_def)
  have h2: "js_prop ?ob ''equipment'' = JArr [JStr ''Dumbbells'']"
    by simp
  from primary_sets_follow_week [OF h1 h2]
  obtain workouts where gen: "generate_program ?body = Inr (Ok workouts)"
    and days: "\<forall>d\<in>{1..30}. d mod 7 \<in> {1, 2, 4, 5} \<longrightarrow>
          w_day (workouts ! (d - 1)) = d
          \<and> w_type (workouts ! (d - 1)) =
              (if d mod 7 \<in> {1, 4} then ''Upper Body'' else ''Lower Body'')
          \<and> length (w_exercises (workouts ! (d - 1))) = 5
          \<and> (\<forall>x\<in>set (take 3 (w_exercises (workouts ! (d - 1)))).
                ex_sets x = min (3 + nat \<lceil>rat_of_nat d / 7\<rceil> div 2) 5)"
    by blast
  have w8: "nat \<lceil>(8::rat) / 7\<rceil> = 2"
    using week_eq [of 8] by simp
  have d8: "w_day (workouts ! 7) = 8 \<and> w_type (workouts ! 7) = ''Upper Body''
      \<and> length (w_exercises (workouts ! 7)) = 5
      \<and> (\<forall>x\<in>set (take 3 (w_exercises (workouts ! 7))). ex_sets x = 4)"
    using bspec [OF days, of 8] by (simp add: w8)
  then have "map ex_sets (take 3 (w_exercises (workouts ! 7))) = replicate 3 4"
    by (intro replicate_eqI) auto
  then show ?thesis
    using gen d8 by (auto simp: numeral_3_eq_3)
qed

text \<open>
  C8. With \<open>Barbell\<close> in the equipment list, the Upper Body and Lower Body workouts
  carry the barbell exercises, whatever else the list holds: two onboarding objects
  whose lists both hold \<open>Barbell\<close> get the same types and the same exercises on every
  day, with or without \<open>Dumbbells\<close>.
\<close>

theorem barbell_takes_precedence:
  assumes "get_prop body ''onboarding'' = Inr onboarding"
    and "js_prop onboarding ''equipment'' = JArr equipment"
    and "JStr ''Barbell'' \<in> set equipment"
    and "get_prop body' ''onboarding'' = Inr onboarding'"
    and "js_prop onboarding' ''equipment'' = JArr equipment'"
    and "JStr ''Barbell'' \<in> set equipment'"
  shows "\<exists>workouts workouts'.
     generate_program body = Inr (Ok workouts)
     \<and> generate_program body' = Inr (Ok workouts')
     \<and> (\<forall>w\<in>set workouts.
          (w_type w = ''Upper Body'' \<longrightarrow>
             map ex_name (w_exercises w) =
               [''Barbell Bench Press'', ''Barbell Row'', ''Overhead Press'', ''Barbell Curl'',
                ''Tricep Extension''])
          \<and> (w_type w = ''Lower Body'' \<longrightarrow>
             map ex_name (w_exercises w) =
               [''Barbell Squat'', ''Romanian Deadlift'', ''Bulgarian Split Squat'', ''Leg Curl'',
                ''Calf Raises'']))
     \<and> map w_type workouts' = map w_type workouts
     \<and> map w_exercises workouts' = map w_exercises workouts"
proof -
  let ?f = "\<lambda>ob eq. workout_of_day ob (eq \<noteq> []) (JStr ''Dumbbells'' \<in> set eq)
              (JStr ''Barbell'' \<in> set eq) (js_prop ob ''timeAvailability'')"
  have gen: "generate_program body = Inr (Ok (map (?f onboarding equipment) [1..<31]))"
    using assms(1,2) by (rule generate_program_array)
  have gen': "generate_program body' = Inr (Ok (map (?f onboarding' equipment') [1..<31]))"
    using assms(4,5) by (rule generate_program_array)
  have ne: "equipment \<noteq> []" "equipment' \<noteq> []"
    using assms(3,6) by auto
  have f: "?f onboarding equipment =
      workout_of_day onboarding True (JStr ''Dumbbells'' \<in> set equipment) True
        (js_prop onboarding ''timeAvailability'')"
    using assms(3) ne by simp
  have f': "?f onboarding' equipment' =
      workout_of_day onboarding' True (JStr ''Dumbbells'' \<in> set equipment') True
        (js_prop onboarding' ''timeAvailability'')"
    using assms(6) ne by simp
  define ty where "ty = (\<lambda>d. w_type (workout_of_day JNull True False True JNull d))"
  define exs where "exs = (\<lambda>d. w_exercises (workout_of_day JNull True False True JNull d))"
  have canon: "w_type (workout_of_day ob True db True t d) = ty d"
    "w_exercises (workout_of_day ob True db True t d) = exs d" for ob db t d
    unfolding ty_def exs_def
    by (simp_all add: workout_of_day_def generateWorkoutForDay_def Let_def
        getUpperBodyExercises_def getLowerBodyExercises_def)
  have names: "(ty d = ''Upper Body'' \<longrightarrow>
        map ex_name (exs d) =
          [''Barbell Bench Press'', ''Barbell Row'', ''Overhead Press'', ''Barbell Curl'',
           ''Tricep Extension''])
      \<and> (ty d = ''Lower Body'' \<longrightarrow>
        map ex_name (exs d) =
          [''Barbell Squat'', ''Romanian Deadlift'', ''Bulgarian Split Squat'', ''Leg Curl'',
           ''Calf Raises''])" for d
    unfolding ty_def exs_def
    by (simp add: workout_of_day_def generateWorkoutForDay_def Let_def
        getUpperBodyExercises_def getLowerBodyExercises_def ex_def)
  show ?thesis
  proof (intro exI conjI)
    show "generate_program body = Inr (Ok (map (?f onboarding equipment) [1..<31]))"
      by (rule gen)
    show "generate_program body' = Inr (Ok (map (?f onboarding' equipment') [1..<31]))"
      by (rule gen')
    show "\<forall>w\<in>set (map (?f onboarding equipment) [1..<31]).
          (w_type w = ''Upper Body'' \<longrightarrow>
             map ex_name (w_exercises w) =
               [''Barbell Bench Press'', ''Barbell Row'', ''Overhead Press'', ''Barbell Curl'',
                ''Tricep Extension''])
          \<and> (w_type w = ''Lower Body'' \<longrightarrow>
             map ex_name (w_exercises w) =
               [''Barbell Squat'', ''Romanian Deadlift'', ''Bulgarian Split Squat'', ''Leg Curl'',
                ''Calf Raises''])"
      using names by (simp only: f set_map ball_simps canon) blast
    show "map w_type (map (?f onboarding' equipment') [1..<31]) =
        map w_type (map (?f onboarding equipment) [1..<31])"
      by (simp only: f f' map_map comp_def canon)
    show "map w_exercises (map (?f onboarding' equipment') [1..<31]) =
        map w_exercises (map (?f onboarding equipment) [1..<31])"
      by (simp only: f f' map_map comp_def canon)
  qed
qed

theorem barbell_takes_precedence_witness:
  "\<exists>workouts workouts'.
     generate_program
       (JObj [(''onboarding'',
          JObj [(''equipment'', JArr [JStr ''Barbell'']),
                (''timeAvailability'', JNum (Fin 45))])]) = Inr (Ok workouts)
     \<and> generate_program
       (JObj [(''onboarding'',
          JObj [(''equipment'', JArr [JStr ''Dumbbells'', JStr ''Barbell'']),
                (''timeAvailability'', JNum (Fin 45))])]) = Inr (Ok workouts')
     \<and> map w_type workouts' = map w_type workouts
     \<and> map w_exercises workouts' = map w_exercises workouts"
proof -
  let ?ob = "JObj [(''equipment'', JArr [JStr ''Barbell'']),
                (''timeAvailability'', JNum (Fin 45))]"
  let ?ob' = "JObj [(''equipment'', JArr [JStr ''Dumbbells'', JStr ''Barbell'']),
                (''timeAvailability'', JNum (Fin 45))]"
  have h1: "get_prop (JObj [(''onboarding'', ?ob)]) ''onboarding'' = Inr ?ob"
    by (simp add: get_prop_def nullish_def)
  have h2: "js_prop ?ob ''equipment'' = JArr [JStr ''Barbell'']"
    by simp
  have h3: "JStr ''Barbell'' \<in> set [JStr ''Barbell'']"
    by simp
  have h4: "get_prop (JObj [(''onboarding'', ?ob')]) ''onboarding'' = Inr ?ob'"
    by (simp add: get_prop_def nullish_def)
  have h5: "js_prop ?ob' ''equipment'' = JArr [JStr ''Dumbbells'', JStr ''Barbell'']"
    by simp
  have h6: "JStr ''Barbell'' \<in> set [JStr ''Dumbbells'', JStr ''Barbell'']"
    by simp
  show ?thesis
    using barbell_takes_precedence [OF h1 h2 h3 h4 h5 h6] by blast
qed

subsection \<open>Rounding to a double\<close>

lemma bitlen_powi_lower:
  assumes "0 < a"
  shows "(2::rat) powi (bitlen a - 1) \<le> of_int a"
proof -
  have ge1: "1 \<le> bitlen a"
    using assms by (auto simp: bitlen_alt_def)
  have "(2::int) ^ nat (bitlen a - 1) \<le> a"
    using bitlen_bounds [OF assms] by simp
  then have "(of_int ((2::int) ^ nat (bitlen a - 1)) :: rat) \<le> of_int a"
    by (simp only: of_int_le_iff)
  then show ?thesis
    using ge1 by (simp add: power_int_nonneg_exp)
qed

lemma bitlen_powi_upper:
  assumes "0 < a"
  shows "of_int a < (2::rat) powi bitlen a"
proof -
  have "a < (2::int) ^ nat (bitlen a)"
    using bitlen_bounds [OF assms] by simp
  then have "(of_int a :: rat) < of_int ((2::int) ^ nat (bitlen a))"
    by (simp only: of_int_less_iff)
  then show ?thesis
    using bitlen_nonneg [of a] by (simp add: power_int_nonneg_exp)
qed

lemma bexp_bounds:
  assumes "0 < x"
  shows "2 powi bexp x \<le> x \<and> x < 2 powi (bexp x + 1)"
proof -
  obtain a b where ab: "quotient_of x = (a, b)"
    by (cases "quotient_of x")
  have b: "0 < b"
    using ab by (rule quotient_of_denom_pos)
  have x: "x = of_int a / of_int b"
    using ab by (rule quotient_of_div)
  have a: "0 < a"
    using assms b x by (simp add: zero_less_divide_iff)
  let ?k = "bitlen a - bitlen b"
  have bpos: "(0::rat) < of_int b"
    using b by simp
  have up: "x < 2 powi (?k + 1)"
  proof -
    have "x < 2 powi bitlen a / of_int b"
      unfolding x using bitlen_powi_upper [OF a] bpos by (simp add: divide_strict_right_mono)
    also have "\<dots> \<le> 2 powi bitlen a / 2 powi (bitlen b - 1)"
      using bitlen_powi_lower [OF b] bpos by (intro divide_left_mono) (auto intro!: mult_pos_pos)
    also have "\<dots> = 2 powi (?k + 1)"
      by (simp add: power_int_diff [symmetric] algebra_simps)
    finally show ?thesis .
  qed
  have lo: "2 powi (?k - 1) < x"
  proof -
    have "(2::rat) powi (?k - 1) = 2 powi (bitlen a - 1) / 2 powi bitlen b"
      by (simp add: power_int_diff [symmetric] algebra_simps)
    also have "\<dots> \<le> of_int a / 2 powi bitlen b"
      using bitlen_powi_lower [OF a] by (simp add: divide_right_mono)
    also have "\<dots> < of_int a / of_int b"
      using bitlen_powi_upper [OF b] a bpos by (intro divide_strict_left_mono) (auto intro!: mult_pos_pos)
    finally show ?thesis
      unfolding x .
  qed
  show ?thesis
  proof (cases "2 powi ?k \<le> x")
    case True
    then have "bexp x = ?k"
      by (simp add: bexp_def ab)
    then show ?thesis
      using True up by simp
  next
    case False
    then have "bexp x = ?k - 1"
      by (simp add: bexp_def ab)
    then show ?thesis
      using False lo by simp
  qed
qed

lemma powi2_less_D: "(2::rat) powi m < 2 powi n \<Longrightarrow> m < n"
  using power_int_increasing [of n m "2::rat"] by (cases "m < n") auto

lemma bexp_unique:
  assumes "0 < x" and lo: "2 powi e \<le> x" and up: "x < 2 powi (e + 1)"
  shows "bexp x = e"
proof -
  have b: "2 powi bexp x \<le> x" "x < 2 powi (bexp x + 1)"
    using bexp_bounds [OF assms(1)] by auto
  have "(2::rat) powi e < 2 powi (bexp x + 1)"
    using lo b(2) by (rule le_less_trans)
  then have 1: "e < bexp x + 1"
    by (rule powi2_less_D)
  have "(2::rat) powi bexp x < 2 powi (e + 1)"
    using b(1) up by (rule le_less_trans)
  then have 2: "bexp x < e + 1"
    by (rule powi2_less_D)
  show ?thesis
    using 1 2 by simp
qed


lemma fl_eqI:
  assumes "x \<noteq> 0" and "2 powi e \<le> \<bar>x\<bar>" and "\<bar>x\<bar> < 2 powi (e + 1)"
    and "round_half_even (x / 2 powi max (e - 52) (- 1074)) = r"
    and "\<bar>of_int r * 2 powi max (e - 52) (- 1074)\<bar> < (2::rat) ^ 1024"
  shows "fl x = Fin (of_int r * 2 powi max (e - 52) (- 1074))"
proof -
  have "bexp \<bar>x\<bar> = e"
    using assms(1-3) by (intro bexp_unique) auto
  then show ?thesis
    using assms(1,4,5) by (simp add: fl_def Let_def)
qed

lemma round_half_even_of_int: "round_half_even (of_int m) = m"
  by (simp add: round_half_even_def)

lemma fl_dyadic:
  assumes n: "\<bar>n\<bar> < 2 ^ 53" and k: "k \<le> 1074"
  shows "fl (of_int n / 2 ^ k) = Fin (of_int n / 2 ^ k)"
proof (cases "n = 0")
  case True
  then show ?thesis by (simp add: fl_def)
next
  case False
  let ?x = "of_int n / 2 ^ k :: rat"
  let ?b = "bitlen \<bar>n\<bar>"
  let ?e = "?b - 1 - int k"
  let ?p = "max (?e - 52) (- 1074)"
  have npos: "0 < \<bar>n\<bar>"
    using False by simp
  have absx: "\<bar>?x\<bar> = of_int \<bar>n\<bar> / 2 powi int k"
    by (simp add: abs_divide)
  have b53: "?b \<le> 53"
    using n by (simp add: bitlen_le_iff_power)
  have lo: "2 powi ?e \<le> \<bar>?x\<bar>"
  proof -
    have "(2::rat) powi ?e = 2 powi (?b - 1) / 2 powi int k"
      by (simp add: power_int_diff)
    also have "\<dots> \<le> \<bar>?x\<bar>"
      unfolding absx using bitlen_powi_lower [OF npos] by (intro divide_right_mono) auto
    finally show ?thesis .
  qed
  have up: "\<bar>?x\<bar> < 2 powi (?e + 1)"
  proof -
    have "\<bar>?x\<bar> < 2 powi ?b / 2 powi int k"
      unfolding absx using bitlen_powi_upper [OF npos] by (intro divide_strict_right_mono) auto
    also have "\<dots> = 2 powi (?e + 1)"
      by (simp add: power_int_diff)
    finally show ?thesis .
  qed
  have p: "?p \<le> - int k"
    using b53 k by simp
  define j where "j = nat (- int k - ?p)"
  have j: "int j = - int k - ?p"
    using p by (simp add: j_def)
  have scaled: "?x / 2 powi ?p = of_int (n * 2 ^ j)"
  proof -
    have "?x / 2 powi ?p = of_int n * 2 powi (- int k - ?p)"
      by (simp add: power_int_diff power_int_minus field_simps)
    also have "\<dots> = of_int n * 2 ^ j"
      by (simp only: j [symmetric] power_int_of_nat)
    finally show ?thesis by simp
  qed
  have unscale: "of_int (n * 2 ^ j) * 2 powi ?p = ?x"
  proof -
    have jp: "int j + ?p = - int k"
      using j by simp
    have "(2::rat) powi int j * 2 powi ?p = 2 powi (int j + ?p)"
      by (simp add: power_int_add)
    then have pw: "(2::rat) ^ j * 2 powi ?p = 2 powi (- int k)"
      by (simp only: jp power_int_of_nat)
    have "of_int (n * 2 ^ j) * 2 powi ?p = of_int n * ((2::rat) ^ j * 2 powi ?p)"
      by simp
    also have "\<dots> = of_int n * 2 powi (- int k)"
      by (simp only: pw)
    finally show ?thesis
      by (simp add: power_int_minus field_simps)
  qed
  have small: "\<bar>?x\<bar> < 2 ^ 1024"
  proof -
    have "\<bar>?x\<bar> \<le> of_int \<bar>n\<bar>"
      unfolding absx by (simp add: field_simps mult_le_cancel_left1 flip: of_int_abs)
    also have "\<dots> < of_int (2 ^ 53)"
      using n by (simp only: of_int_less_iff)
    also have "\<dots> \<le> (2::rat) ^ 1024"
      by simp
    finally show ?thesis .
  qed
  have "fl ?x = Fin (of_int (n * 2 ^ j) * 2 powi ?p)"
  proof (rule fl_eqI [where e = ?e])
    show "?x \<noteq> 0" using False by simp
    show "2 powi ?e \<le> \<bar>?x\<bar>" by (rule lo)
    show "\<bar>?x\<bar> < 2 powi (?e + 1)" by (rule up)
    show "round_half_even (?x / 2 powi ?p) = n * 2 ^ j"
      by (simp only: scaled round_half_even_of_int)
    show "\<bar>of_int (n * 2 ^ j) * 2 powi ?p\<bar> < (2::rat) ^ 1024"
      by (simp only: unscale small)
  qed
  then show ?thesis
    by (simp only: unscale)
qed

lemma fl_of_int: "\<bar>n\<bar> < 2 ^ 53 \<Longrightarrow> fl (of_int n) = Fin (of_int n)"
  using fl_dyadic [of n 0] by simp

lemma floor_rat_numeral [simp]:
  "\<lfloor>numeral a / numeral b :: rat\<rfloor> = numeral a div numeral b"
  "\<lfloor>- (numeral a / numeral b) :: rat\<rfloor> = - numeral a div numeral b"
  using floor_divide_of_int_eq [of "numeral a" "numeral b", where ?'a = rat]
    floor_divide_of_int_eq [of "- numeral a" "numeral b", where ?'a = rat]
  by simp_all


lemma fl_8_10:
  "fl (8 / 10) = Fin (3602879701896397 / 4503599627370496)"
  "fl (4 / 5) = Fin (3602879701896397 / 4503599627370496)"
  using fl_eqI [of "8 / 10" "- 1" 7205759403792794]
  by (simp_all add: round_half_even_def Let_def)

lemma fl_12_10:
  "fl (12 / 10) = Fin (5404319552844595 / 4503599627370496)"
  "fl (6 / 5) = Fin (5404319552844595 / 4503599627370496)"
  using fl_eqI [of "12 / 10" 0 5404319552844595]
  by (simp_all add: round_half_even_def Let_def)

lemma fl_13_10:
  "fl (13 / 10) = Fin (5854679515581645 / 4503599627370496)"
  using fl_eqI [of "13 / 10" 0 5854679515581645]
  by (simp add: round_half_even_def Let_def)

lemma fl_9_10:
  "fl (9 / 10) = Fin (8106479329266893 / 9007199254740992)"
  using fl_eqI [of "9 / 10" "- 1" 8106479329266893]
  by (simp add: round_half_even_def Let_def)

subsection \<open>The week and the sets, in doubles\<close>

text \<open>
  The generator is modelled on natural numbers. In the doubles of the source the week of
  each day from 1 to 30 and the sets of each week from 1 to 5 are the same numbers: the
  quotient \<open>day / 7\<close> is rounded, but across no integer.
\<close>

lemma ceiling_rat_numeral [simp]:
  "\<lceil>numeral a / numeral b :: rat\<rceil> = - (- numeral a div numeral b)"
  "\<lceil>1 / numeral b :: rat\<rceil> = - (- 1 div numeral b)"
  using ceiling_divide_eq_div [of "numeral a" "numeral b", where ?'a = rat]
    ceiling_divide_eq_div [of 1 "numeral b", where ?'a = rat]
  by simp_all

lemma floor_rat_one [simp]: "\<lfloor>1 / numeral b :: rat\<rfloor> = 1 div numeral b"
  using floor_divide_of_int_eq [of 1 "numeral b", where ?'a = rat] by simp

lemma week_of_day_in_doubles:
  "js_ceil (js_div (Fin 1) (Fin 7)) = Fin 1"
  "js_ceil (js_div (Fin 2) (Fin 7)) = Fin 1"
  "js_ceil (js_div (Fin 3) (Fin 7)) = Fin 1"
  "js_ceil (js_div (Fin 4) (Fin 7)) = Fin 1"
  "js_ceil (js_div (Fin 5) (Fin 7)) = Fin 1"
  "js_ceil (js_div (Fin 6) (Fin 7)) = Fin 1"
  "js_ceil (js_div (Fin 7) (Fin 7)) = Fin 1"
  "js_ceil (js_div (Fin 8) (Fin 7)) = Fin 2"
  "js_ceil (js_div (Fin 9) (Fin 7)) = Fin 2"
  "js_ceil (js_div (Fin 10) (Fin 7)) = Fin 2"
  "js_ceil (js_div (Fin 11) (Fin 7)) = Fin 2"
  "js_ceil (js_div (Fin 12) (Fin 7)) = Fin 2"
  "js_ceil (js_div (Fin 13) (Fin 7)) = Fin 2"
  "js_ceil (js_div (Fin 14) (Fin 7)) = Fin 2"
  "js_ceil (js_div (Fin 15) (Fin 7)) = Fin 3"
  "js_ceil (js_div (Fin 16) (Fin 7)) = Fin 3"
  "js_ceil (js_div (Fin 17) (Fin 7)) = Fin 3"
  "js_ceil (js_div (Fin 18) (Fin 7)) = Fin 3"
  "js_ceil (js_div (Fin 19) (Fin 7)) = Fin 3"
  "js_ceil (js_div (Fin 20) (Fin 7)) = Fin 3"
  "js_ceil (js_div (Fin 21) (Fin 7)) = Fin 3"
  "js_ceil (js_div (Fin 22) (Fin 7)) = Fin 4"
  "js_ceil (js_div (Fin 23) (Fin 7)) = Fin 4"
  "js_ceil (js_div (Fin 24) (Fin 7)) = Fin 4"
  "js_ceil (js_div (Fin 25) (Fin 7)) = Fin 4"
  "js_ceil (js_div (Fin 26) (Fin 7)) = Fin 4"
  "js_ceil (js_div (Fin 27) (Fin 7)) = Fin 4"
  "js_ceil (js_div (Fin 28) (Fin 7)) = Fin 4"
  "js_ceil (js_div (Fin 29) (Fin 7)) = Fin 5"
  "js_ceil (js_div (Fin 30) (Fin 7)) = Fin 5"
proof -
  show "js_ceil (js_div (Fin 1) (Fin 7)) = Fin 1"
    using fl_eqI [of "1 / 7" "- 3" 5146971002709138]
    by (simp add: js_ceil_def js_div_def round_half_even_def Let_def)
  show "js_ceil (js_div (Fin 2) (Fin 7)) = Fin 1"
    using fl_eqI [of "2 / 7" "- 2" 5146971002709138]
    by (simp add: js_ceil_def js_div_def round_half_even_def Let_def)
  show "js_ceil (js_div (Fin 3) (Fin 7)) = Fin 1"
    using fl_eqI [of "3 / 7" "- 2" 7720456504063707]
    by (simp add: js_ceil_def js_div_def round_half_even_def Let_def)
  show "js_ceil (js_div (Fin 4) (Fin 7)) = Fin 1"
    using fl_eqI [of "4 / 7" "- 1" 5146971002709138]
    by (simp add: js_ceil_def js_div_def round_half_even_def Let_def)
  show "js_ceil (js_div (Fin 5) (Fin 7)) = Fin 1"
    using fl_eqI [of "5 / 7" "- 1" 6433713753386423]
    by (simp add: js_ceil_def js_div_def round_half_even_def Let_def)
  show "js_ceil (js_div (Fin 6) (Fin 7)) = Fin 1"
    using fl_eqI [of "6 / 7" "- 1" 7720456504063707]
    by (simp add: js_ceil_def js_div_def round_half_even_def Let_def)
  show "js_ceil (js_div (Fin 7) (Fin 7)) = Fin 1"
    using fl_of_int [of 1]
    by (simp add: js_ceil_def js_div_def round_half_even_def Let_def)
  show "js_ceil (js_div (Fin 8) (Fin 7)) = Fin 2"
    using fl_eqI [of "8 / 7" 0 5146971002709138]
    by (simp add: js_ceil_def js_div_def round_half_even_def Let_def)
  show "js_ceil (js_div (Fin 9) (Fin 7)) = Fin 2"
    using fl_eqI [of "9 / 7" 0 5790342378047781]
    by (simp add: js_ceil_def js_div_def round_half_even_def Let_def)
  show "js_ceil (js_div (Fin 10) (Fin 7)) = Fin 2"
    using fl_eqI [of "10 / 7" 0 6433713753386423]
    by (simp add: js_ceil_def js_div_def round_half_even_def Let_def)
  show "js_ceil (js_div (Fin 11) (Fin 7)) = Fin 2"
    using fl_eqI [of "11 / 7" 0 7077085128725065]
    by (simp add: js_ceil_def js_div_def round_half_even_def Let_def)
  show "js_ceil (js_div (Fin 12) (Fin 7)) = Fin 2"
    using fl_eqI [of "12 / 7" 0 7720456504063707]
    by (simp add: js_ceil_def js_div_def round_half_even_def Let_def)
  show "js_ceil (js_div (Fin 13) (Fin 7)) = Fin 2"
    using fl_eqI [of "13 / 7" 0 8363827879402350]
    by (simp add: js_ceil_def js_div_def round_half_even_def Let_def)
  show "js_ceil (js_div (Fin 14) (Fin 7)) = Fin 2"
    using fl_of_int [of 2]
    by (simp add: js_ceil_def js_div_def round_half_even_def Let_def)
  show "js_ceil (js_div (Fin 15) (Fin 7)) = Fin 3"
    using fl_eqI [of "15 / 7" 1 4825285315039817]
    by (simp add: js_ceil_def js_div_def round_half_even_def Let_def)
  show "js_ceil (js_div (Fin 16) (Fin 7)) = Fin 3"
    using fl_eqI [of "16 / 7" 1 5146971002709138]
    by (simp add: js_ceil_def js_div_def round_half_even_def Let_def)
  show "js_ceil (js_div (Fin 17) (Fin 7)) = Fin 3"
    using fl_eqI [of "17 / 7" 1 5468656690378459]
    by (simp add: js_ceil_def js_div_def round_half_even_def Let_def)
  show "js_ceil (js_div (Fin 18) (Fin 7)) = Fin 3"
    using fl_eqI [of "18 / 7" 1 5790342378047781]
    by (simp add: js_ceil_def js_div_def round_half_even_def Let_def)
  show "js_ceil (js_div (Fin 19) (Fin 7)) = Fin 3"
    using fl_eqI [of "19 / 7" 1 6112028065717102]
    by (simp add: js_ceil_def js_div_def round_half_even_def Let_def)
  show "js_ceil (js_div (Fin 20) (Fin 7)) = Fin 3"
    using fl_eqI [of "20 / 7" 1 6433713753386423]
    by (simp add: js_ceil_def js_div_def round_half_even_def Let_def)
  show "js_ceil (js_div (Fin 21) (Fin 7)) = Fin 3"
    using fl_of_int [of 3]
    by (simp add: js_ceil_def js_div_def round_half_even_def Let_def)
  show "js_ceil (js_div (Fin 22) (Fin 7)) = Fin 4"
    using fl_eqI [of "22 / 7" 1 7077085128725065]
    by (simp add: js_ceil_def js_div_def round_half_even_def Let_def)
  show "js_ceil (js_div (Fin 23) (Fin 7)) = Fin 4"
    using fl_eqI [of "23 / 7" 1 7398770816394386]
    by (simp add: js_ceil_def js_div_def round_half_even_def Let_def)
  show "js_ceil (js_div (Fin 24) (Fin 7)) = Fin 4"
    using fl_eqI [of "24 / 7" 1 7720456504063707]
    by (simp add: js_ceil_def js_div_def round_half_even_def Let_def)
  show "js_ceil (js_div (Fin 25) (Fin 7)) = Fin 4"
    using fl_eqI [of "25 / 7" 1 8042142191733029]
    by (simp add: js_ceil_def js_div_def round_half_even_def Let_def)
  show "js_ceil (js_div (Fin 26) (Fin 7)) = Fin 4"
    using fl_eqI [of "26 / 7" 1 8363827879402350]
    by (simp add: js_ceil_def js_div_def round_half_even_def Let_def)
  show "js_ceil (js_div (Fin 27) (Fin 7)) = Fin 4"
    using fl_eqI [of "27 / 7" 1 8685513567071671]
    by (simp add: js_ceil_def js_div_def round_half_even_def Let_def)
  show "js_ceil (js_div (Fin 28) (Fin 7)) = Fin 4"
    using fl_of_int [of 4]
    by (simp add: js_ceil_def js_div_def round_half_even_def Let_def)
  show "js_ceil (js_div (Fin 29) (Fin 7)) = Fin 5"
    using fl_eqI [of "29 / 7" 2 4664442471205157]
    by (simp add: js_ceil_def js_div_def round_half_even_def Let_def)
  show "js_ceil (js_div (Fin 30) (Fin 7)) = Fin 5"
    using fl_eqI [of "30 / 7" 2 4825285315039817]
    by (simp add: js_ceil_def js_div_def round_half_even_def Let_def)
qed

lemma day_cases:
  assumes "d \<in> {1..30}"
  shows "d \<in> {1, 2, 3, 4, 5, 6, 7, 8, 9, 10, 11, 12, 13, 14, 15, 16, 17, 18, 19, 20, 21, 22, 23,
              24, 25, 26, 27, 28, 29, 30::nat}"
proof -
  have "1 \<le> d" "d \<le> 30"
    using assms by auto
  then show ?thesis
    by (simp only: insert_iff empty_iff) arith
qed

lemma week_in_doubles:
  assumes "d \<in> {1..30}"
  shows "js_ceil (js_div (Fin (of_nat d)) (Fin 7)) = Fin (of_nat (nat \<lceil>rat_of_nat d / 7\<rceil>))"
  using day_cases [OF assms]
  by (elim insertE emptyE) (simp_all add: week_of_day_in_doubles)

lemma sets_in_doubles:
  assumes "week \<in> {1..5}"
  shows "js_min (js_add (Fin 3) (js_floor (js_div (Fin (of_nat week)) (Fin 2)))) (Fin 5) =
     Fin (of_nat (working_sets week))"
proof -
  have "1 \<le> week" "week \<le> 5"
    using assms by auto
  then have "week \<in> {1, 2, 3, 4, 5}"
    by (simp only: insert_iff empty_iff) arith
  then show ?thesis
    using fl_dyadic [of 1 1] fl_of_int [of 1] fl_dyadic [of 3 1] fl_of_int [of 2]
      fl_dyadic [of 5 1] fl_of_int [of 3] fl_of_int [of 4] fl_of_int [of 5]
    by (elim insertE emptyE)
      (simp_all add: working_sets_eq js_min_def js_add_def js_floor_def js_div_def js_le_def)
qed

subsection \<open>The nutrition scenario\<close>

lemma scenario_bmr:
  "calculateBMR rt (JNum (Fin 75)) (JNum (Fin 175)) (JNum (Fin 30)) = Fin (169875 / 100)"
proof -
  have 1: "fl 750 = Fin 750"
    using fl_of_int [of 750] by simp
  have 2: "fl (4375 / 4) = Fin (4375 / 4)"
    using fl_dyadic [of 4375 2] by simp
  have 3: "fl (7375 / 4) = Fin (7375 / 4)"
    using fl_dyadic [of 7375 2] by simp
  have 4: "fl 150 = Fin 150"
    using fl_of_int [of 150] by simp
  have 5: "fl (6775 / 4) = Fin (6775 / 4)"
    using fl_dyadic [of 6775 2] by simp
  have 6: "fl (6795 / 4) = Fin (6795 / 4)"
    using fl_dyadic [of 6795 2] by simp
  show ?thesis
    by (simp add: calculateBMR_def js_mul_def js_add_def js_sub_def js_neg_def 1 2 3 4 5 6)
qed


lemma scenario_macros:
  "nutrition_macros rt
     (JObj [(''weight'', JNum (Fin 75)), (''height'', JNum (Fin 175)), (''age'', JNum (Fin 30)),
            (''goal'', JStr ''shred''), (''fitnessLevel'', JStr ''intermediate'')]) =
   \<lparr>bmr = Fin (169875 / 100), activityMultiplier = Fin (15 / 10),
    maintenanceCalories = Fin 2548, targetCalories = Fin 2038,
    proteinPerLb = fl (12 / 10), proteinGrams = Fin 90, proteinCalories = Fin 360,
    fatCalories = Fin 510, fatGrams = Fin 57, carbCalories = Fin 1168, carbGrams = Fin 292\<rparr>"
proof -
  have maintenance: "js_round (js_mul (Fin (169875 / 100)) (Fin (15 / 10))) = Fin 2548"
    using fl_dyadic [of 20385 3] by (simp add: js_mul_def js_round_def)
  have target: "js_round (js_mul (Fin 2548) (fl (8 / 10))) = Fin 2038"
    using fl_eqI [of "2548 * (3602879701896397 / 4503599627370496)" 10 8964978008234394]
    by (simp add: fl_8_10 js_mul_def js_round_def round_half_even_def Let_def)
  have grams: "js_round (js_mul (Fin 75) (fl (12 / 10))) = Fin 90"
    using fl_eqI [of "75 * (5404319552844595 / 4503599627370496)" 6 6333186975989760]
    by (simp add: fl_12_10 js_mul_def js_round_def round_half_even_def Let_def)
  have pcal: "js_mul (Fin 90) (Fin 4) = Fin 360"
    using fl_of_int [of 360] by (simp add: js_mul_def)
  have fcal: "js_round (js_mul (Fin 2038) (Fin (25 / 100))) = Fin 510"
    using fl_dyadic [of 1019 1] by (simp add: js_mul_def js_round_def)
  have fgrams: "js_round (js_div (Fin 510) (Fin 9)) = Fin 57"
    using fl_eqI [of "510 / 9" 5 7975124340135253]
    by (simp add: js_div_def js_round_def round_half_even_def Let_def)
  have ccal: "js_sub (js_sub (Fin 2038) (Fin 360)) (Fin 510) = Fin 1168"
    using fl_of_int [of 1678] fl_of_int [of 1168]
    by (simp add: js_sub_def js_add_def js_neg_def)
  have cgrams: "js_round (js_div (Fin 1168) (Fin 4)) = Fin 292"
    using fl_of_int [of 292] by (simp add: js_div_def js_round_def)
  show ?thesis
    using scenario_bmr [of rt] maintenance target grams pcal fcal fgrams ccal cgrams
    by (simp add: nutrition_macros_def Let_def)
qed

text \<open>
  C6. The scenario of weight 75, height 175, age 30, goal \<open>shred\<close> and level
  \<open>intermediate\<close>, in double arithmetic: the basal rate is 1698.75, the maintenance 2548
  and the target 2038; protein, fat and carbohydrates take 360, 510 and 1168 calories; and
  the reply is 2038 calories, 90 g of protein, 292 g of carbohydrates and 57 g of fat.
\<close>

theorem nutrition_scenario:
  "calculate_nutrition rt
     (JObj [(''onboarding'',
        JObj [(''weight'', JNum (Fin 75)), (''height'', JNum (Fin 175)), (''age'', JNum (Fin 30)),
              (''goal'', JStr ''shred''), (''fitnessLevel'', JStr ''intermediate'')])]) =
     Inr (Ok \<lparr>calories = Fin 2038, protein = Fin 90, carbs = Fin 292, fats = Fin 57, meals = []\<rparr>)
   \<and> calculateBMR rt (JNum (Fin 75)) (JNum (Fin 175)) (JNum (Fin 30)) = Fin (169875 / 100)
   \<and> js_round (js_mul (Fin (169875 / 100)) (Fin (15 / 10))) = Fin 2548
   \<and> js_round (js_mul (Fin 2548) (fl (8 / 10))) = Fin 2038
   \<and> maintenanceCalories (nutrition_macros rt
        (JObj [(''weight'', JNum (Fin 75)), (''height'', JNum (Fin 175)), (''age'', JNum (Fin 30)),
              (''goal'', JStr ''shred''), (''fitnessLevel'', JStr ''intermediate'')])) = Fin 2548
   \<and> targetCalories (nutrition_macros rt
        (JObj [(''weight'', JNum (Fin 75)), (''height'', JNum (Fin 175)), (''age'', JNum (Fin 30)),
              (''goal'', JStr ''shred''), (''fitnessLevel'', JStr ''intermediate'')])) = Fin 2038
   \<and> proteinCalories (nutrition_macros rt
        (JObj [(''weight'', JNum (Fin 75)), (''height'', JNum (Fin 175)), (''age'', JNum (Fin 30)),
              (''goal'', JStr ''shred''), (''fitnessLevel'', JStr ''intermediate'')])) = Fin 360
   \<and> fatCalories (nutrition_macros rt
        (JObj [(''weight'', JNum (Fin 75)), (''height'', JNum (Fin 175)), (''age'', JNum (Fin 30)),
              (''goal'', JStr ''shred''), (''fitnessLevel'', JStr ''intermediate'')])) = Fin 510
   \<and> carbCalories (nutrition_macros rt
        (JObj [(''weight'', JNum (Fin 75)), (''height'', JNum (Fin 175)), (''age'', JNum (Fin 30)),
              (''goal'', JStr ''shred''), (''fitnessLevel'', JStr ''intermediate'')])) = Fin 1168"
proof -
  have m: "js_round (js_mul (Fin (169875 / 100)) (Fin (15 / 10))) = Fin 2548"
    using fl_dyadic [of 20385 3] by (simp add: js_mul_def js_round_def)
  have t: "js_round (js_mul (Fin 2548) (fl (8 / 10))) = Fin 2038"
    using fl_eqI [of "2548 * (3602879701896397 / 4503599627370496)" 10 8964978008234394]
    by (simp add: fl_8_10 js_mul_def js_round_def round_half_even_def Let_def)
  have r: "calculate_nutrition rt
     (JObj [(''onboarding'',
        JObj [(''weight'', JNum (Fin 75)), (''height'', JNum (Fin 175)), (''age'', JNum (Fin 30)),
              (''goal'', JStr ''shred''), (''fitnessLevel'', JStr ''intermediate'')])]) =
     Inr (Ok \<lparr>calories = Fin 2038, protein = Fin 90, carbs = Fin 292, fats = Fin 57, meals = []\<rparr>)"
    by (simp add: calculate_nutrition_def get_prop_def nullish_def Let_def scenario_macros
        del: js_prop.simps) (simp add: scenario_macros)
  show ?thesis
    using m t r scenario_bmr [of rt] by (simp add: scenario_macros)
qed

subsection \<open>Exact operations on integers\<close>

lemma js_mul_int:
  "\<bar>a * b\<bar> < 2 ^ 53 \<Longrightarrow> js_mul (Fin (of_int a)) (Fin (of_int b)) = Fin (of_int (a * b))"
  using fl_of_int [of "a * b"] by (simp add: js_mul_def)

lemma js_sub_int:
  "\<bar>a - b\<bar> < 2 ^ 53 \<Longrightarrow> js_sub (Fin (of_int a)) (Fin (of_int b)) = Fin (of_int (a - b))"
  using fl_of_int [of "a - b"] by (simp add: js_sub_def js_add_def js_neg_def)

lemma js_mul_quarter:
  "\<bar>a\<bar> < 2 ^ 53 \<Longrightarrow> js_mul (Fin (of_int a)) (Fin (25 / 100)) = Fin (of_int a / 4)"
  "\<bar>a\<bar> < 2 ^ 53 \<Longrightarrow> js_mul (Fin (of_int a)) (Fin (1 / 4)) = Fin (of_int a / 4)"
  using fl_dyadic [of a 2] by (simp_all add: js_mul_def)

lemma js_div_four:
  "\<bar>a\<bar> < 2 ^ 53 \<Longrightarrow> js_div (Fin (of_int a)) (Fin 4) = Fin (of_int a / 4)"
  using fl_dyadic [of a 2] by (simp add: js_div_def)

lemma round_quarter_bound: "\<bar>\<lfloor>rat_of_int t / 4 + 1 / 2\<rfloor>\<bar> \<le> \<bar>t\<bar> div 4 + 1"
proof -
  have "\<lfloor>rat_of_int t / 4 + 1 / 2\<rfloor> = (t + 2) div 4"
  proof -
    have "rat_of_int t / 4 + 1 / 2 = rat_of_int (t + 2) / rat_of_int 4"
      by simp
    then show ?thesis
      by (simp only: floor_divide_of_int_eq)
  qed
  then show ?thesis
    by simp
qed


subsection \<open>Carbohydrates as the remainder\<close>

lemma carbs_formula:
  "carbCalories (nutrition_macros rt onboarding) =
     js_sub
       (js_sub (targetCalories (nutrition_macros rt onboarding))
          (js_mul (proteinGrams (nutrition_macros rt onboarding)) (Fin 4)))
       (js_round (js_mul (targetCalories (nutrition_macros rt onboarding)) (Fin (25 / 100))))
   \<and> carbGrams (nutrition_macros rt onboarding) =
     js_round (js_div (carbCalories (nutrition_macros rt onboarding)) (Fin 4))"
  by (simp add: nutrition_macros_def Let_def split: prod.splits)

lemma carbs_exact:
  assumes t: "\<bar>t\<bar> \<le> 2 ^ 50" and p: "\<bar>p\<bar> \<le> 2 ^ 48"
  shows "js_sub (js_sub (Fin (of_int t)) (js_mul (Fin (of_int p)) (Fin 4)))
           (js_round (js_mul (Fin (of_int t)) (Fin (25 / 100)))) =
         Fin (of_int (t - p * 4 - \<lfloor>rat_of_int t / 4 + 1 / 2\<rfloor>))
       \<and> js_round (js_div (Fin (of_int (t - p * 4 - \<lfloor>rat_of_int t / 4 + 1 / 2\<rfloor>))) (Fin 4)) =
         Fin (of_int \<lfloor>rat_of_int (t - p * 4 - \<lfloor>rat_of_int t / 4 + 1 / 2\<rfloor>) / 4 + 1 / 2\<rfloor>)"
proof -
  let ?f = "\<lfloor>rat_of_int t / 4 + 1 / 2\<rfloor>"
  have f: "\<bar>?f\<bar> \<le> 2 ^ 48 + 1"
    using round_quarter_bound [of t] t by simp
  have "js_mul (Fin (of_int p)) (Fin (of_int 4)) = Fin (of_int (p * 4))"
    using p by (intro js_mul_int) simp
  then have pc: "js_mul (Fin (of_int p)) (Fin 4) = Fin (of_int (p * 4))"
    by simp
  have fc: "js_round (js_mul (Fin (of_int t)) (Fin (25 / 100))) = Fin (of_int ?f)"
    using t by (simp add: js_mul_quarter js_round_def)
  have s1: "js_sub (Fin (of_int t)) (Fin (of_int (p * 4))) = Fin (of_int (t - p * 4))"
    using t p by (intro js_sub_int) simp
  have s2: "js_sub (Fin (of_int (t - p * 4))) (Fin (of_int ?f)) = Fin (of_int (t - p * 4 - ?f))"
    using t p f by (intro js_sub_int) simp
  have g: "js_div (Fin (of_int (t - p * 4 - ?f))) (Fin 4) = Fin (of_int (t - p * 4 - ?f) / 4)"
    using t p f by (intro js_div_four) simp
  show ?thesis
    by (simp only: pc fc s1 s2 g) (simp add: js_round_def)
qed

lemma negative_carbs:
  "carbCalories (nutrition_macros rt
     (JObj [(''weight'', JNum (Fin 50)), (''height'', JNum (Fin 100)), (''age'', JNum (Fin 200)),
            (''goal'', JStr ''reset''), (''fitnessLevel'', JStr ''beginner'')])) = Fin (- 53)
   \<and> carbGrams (nutrition_macros rt
     (JObj [(''weight'', JNum (Fin 50)), (''height'', JNum (Fin 100)), (''age'', JNum (Fin 200)),
            (''goal'', JStr ''reset''), (''fitnessLevel'', JStr ''beginner'')])) = Fin (- 13)"
proof -
  have b: "calculateBMR rt (JNum (Fin 50)) (JNum (Fin 100)) (JNum (Fin 200)) = Fin 130"
    using fl_of_int [of 500] fl_of_int [of 625] fl_of_int [of 1125] fl_of_int [of 1000]
      fl_of_int [of 125] fl_of_int [of 130]
    by (simp add: calculateBMR_def js_mul_def js_add_def js_sub_def js_neg_def)
  have maintenance: "js_round (js_mul (Fin 130) (fl (13 / 10))) = Fin 169"
    using fl_eqI [of "130 * (5854679515581645 / 4503599627370496)" 7 5946158883012608]
    by (simp add: fl_13_10 js_mul_def js_round_def round_half_even_def Let_def)
  have grams: "js_round (js_mul (Fin 50) (fl (9 / 10))) = Fin 45"
    using fl_eqI [of "50 * (8106479329266893 / 9007199254740992)" 5 6333186975989760]
    by (simp add: fl_9_10 js_mul_def js_round_def round_half_even_def Let_def)
  have pcal: "js_mul (Fin 45) (Fin 4) = Fin 180"
    using fl_of_int [of 180] by (simp add: js_mul_def)
  have fcal: "js_round (js_mul (Fin 169) (Fin (25 / 100))) = Fin 42"
    using fl_dyadic [of 169 2] by (simp add: js_mul_def js_round_def)
  have ccal: "js_sub (js_sub (Fin 169) (Fin 180)) (Fin 42) = Fin (- 53)"
    using fl_of_int [of "- 11"] fl_of_int [of "- 53"]
    by (simp add: js_sub_def js_add_def js_neg_def)
  have cgrams: "js_round (js_div (Fin (- 53)) (Fin 4)) = Fin (- 13)"
    using fl_dyadic [of "- 53" 2] by (simp add: js_div_def js_round_def)
  show ?thesis
    using b maintenance grams pcal fcal ccal cgrams
    by (simp add: nutrition_macros_def Let_def)
qed

text \<open>
  C5. Whatever the goal, the carbohydrate calories are the target less four times the
  protein grams less the fat calories, which are the rounded quarter of the target, and
  the carbohydrate grams are their rounded quarter. On integers of ordinary size the
  double operations are exact, so this is the integer remainder itself. Nothing clamps
  it: an onboarding of weight 50, height 100 and age 200 gets -53 calories and -13 grams.
\<close>

theorem carbs_are_unclamped_remainder:
  "carbCalories (nutrition_macros rt onboarding) =
     js_sub
       (js_sub (targetCalories (nutrition_macros rt onboarding))
          (js_mul (proteinGrams (nutrition_macros rt onboarding)) (Fin 4)))
       (js_round (js_mul (targetCalories (nutrition_macros rt onboarding)) (Fin (25 / 100))))
   \<and> carbGrams (nutrition_macros rt onboarding) =
     js_round (js_div (carbCalories (nutrition_macros rt onboarding)) (Fin 4))
   \<and> (targetCalories (nutrition_macros rt onboarding) = Fin (of_int t)
        \<and> proteinGrams (nutrition_macros rt onboarding) = Fin (of_int p)
        \<and> \<bar>t\<bar> \<le> 2 ^ 50 \<and> \<bar>p\<bar> \<le> 2 ^ 48 \<longrightarrow>
      carbCalories (nutrition_macros rt onboarding) =
        Fin (of_int (t - p * 4 - \<lfloor>rat_of_int t / 4 + 1 / 2\<rfloor>))
      \<and> carbGrams (nutrition_macros rt onboarding) =
        Fin (of_int \<lfloor>rat_of_int (t - p * 4 - \<lfloor>rat_of_int t / 4 + 1 / 2\<rfloor>) / 4 + 1 / 2\<rfloor>))
   \<and> carbCalories (nutrition_macros rt
        (JObj [(''weight'', JNum (Fin 50)), (''height'', JNum (Fin 100)), (''age'', JNum (Fin 200)),
               (''goal'', JStr ''reset''), (''fitnessLevel'', JStr ''beginner'')])) = Fin (- 53)
   \<and> carbGrams (nutrition_macros rt
        (JObj [(''weight'', JNum (Fin 50)), (''height'', JNum (Fin 100)), (''age'', JNum (Fin 200)),
               (''goal'', JStr ''reset''), (''fitnessLevel'', JStr ''beginner'')])) = Fin (- 13)"
proof -
  let ?m = "nutrition_macros rt onboarding"
  note formula = carbs_formula [of rt onboarding]
  have exact: "carbCalories ?m = Fin (of_int (t - p * 4 - \<lfloor>rat_of_int t / 4 + 1 / 2\<rfloor>))
      \<and> carbGrams ?m =
        Fin (of_int \<lfloor>rat_of_int (t - p * 4 - \<lfloor>rat_of_int t / 4 + 1 / 2\<rfloor>) / 4 + 1 / 2\<rfloor>)"
    if "targetCalories ?m = Fin (of_int t)" "proteinGrams ?m = Fin (of_int p)"
      "\<bar>t\<bar> \<le> 2 ^ 50" "\<bar>p\<bar> \<le> 2 ^ 48"
  proof -
    note e = carbs_exact [OF that(3,4)]
    have cc: "carbCalories ?m = Fin (of_int (t - p * 4 - \<lfloor>rat_of_int t / 4 + 1 / 2\<rfloor>))"
      using formula e by (simp only: that(1,2))
    have "carbGrams ?m = js_round (js_div (carbCalories ?m) (Fin 4))"
      using formula by simp
    then show ?thesis
      using e cc by simp
  qed
  show ?thesis
    using formula exact negative_carbs [of rt] by blast
qed

theorem carbs_are_unclamped_remainder_witness:
  "carbCalories (nutrition_macros example_runtime
     (JObj [(''weight'', JNum (Fin 75)), (''height'', JNum (Fin 175)), (''age'', JNum (Fin 30)),
            (''goal'', JStr ''shred''), (''fitnessLevel'', JStr ''intermediate'')])) = Fin 1168
   \<and> carbGrams (nutrition_macros example_runtime
     (JObj [(''weight'', JNum (Fin 75)), (''height'', JNum (Fin 175)), (''age'', JNum (Fin 30)),
            (''goal'', JStr ''shred''), (''fitnessLevel'', JStr ''intermediate'')])) = Fin 292"
proof -
  let ?ob = "JObj [(''weight'', JNum (Fin 75)), (''height'', JNum (Fin 175)), (''age'', JNum (Fin 30)),
            (''goal'', JStr ''shred''), (''fitnessLevel'', JStr ''intermediate'')]"
  have t: "targetCalories (nutrition_macros example_runtime ?ob) = Fin (of_int 2038)"
    by (simp add: scenario_macros)
  have p: "proteinGrams (nutrition_macros example_runtime ?ob) = Fin (of_int 90)"
    by (simp add: scenario_macros)
  note th = carbs_are_unclamped_remainder [of example_runtime ?ob 2038 90,
      THEN conjunct2, THEN conjunct2, THEN conjunct1]
  show ?thesis
    using th t p by simp
qed

subsection \<open>The persona\<close>

lemma system_prompt_label:
  assumes "system_prompt rt body = Inr (Ok out)"
  shows "styleLabel out = fst (style_band (coaching_style rt (js_prop body ''onboardingData'')))"
  using assms
  by (auto simp: system_prompt_def get_prop_def Let_def
      split: if_splits sum.splits prod.splits)

lemma style_band_label:
  "fst (style_band n) =
     (if js_ge n (Fin 1) \<and> js_le n (Fin 3) then ''gentle''
      else if js_ge n (Fin 4) \<and> js_le n (Fin 7) then ''balanced''
      else ''hardtruth'')"
  by (simp add: style_band_def)

text \<open>
  C3, as the code has it. The number read from \<open>coachingStyle\<close> gives \<open>gentle\<close> from 1 to
  3, \<open>balanced\<close> from 4 to 7, and \<open>hardtruth\<close> for every other number except 0: from 8 to
  10, above 10, below 1, between the bands, and the infinities. Zero is taken as absent:
  0 and \<open>NaN\<close>, which an absent \<open>coachingStyle\<close> reads as, give the default 5 and so
  \<open>balanced\<close>.
\<close>

theorem style_label_bands:
  assumes "system_prompt rt body = Inr (Ok out)"
    and "n = to_number rt (js_prop (js_prop body ''onboardingData'') ''coachingStyle'')"
  shows "(\<forall>q. n = Fin q \<and> 1 \<le> q \<and> q \<le> 3 \<longrightarrow> styleLabel out = ''gentle'')
     \<and> (\<forall>q. n = Fin q \<and> 4 \<le> q \<and> q \<le> 7 \<longrightarrow> styleLabel out = ''balanced'')
     \<and> (\<forall>q. n = Fin q \<and> q \<noteq> 0 \<and> \<not> (1 \<le> q \<and> q \<le> 3) \<and> \<not> (4 \<le> q \<and> q \<le> 7) \<longrightarrow>
           styleLabel out = ''hardtruth'')
     \<and> (n = PosInf \<or> n = NegInf \<longrightarrow> styleLabel out = ''hardtruth'')
     \<and> (n = NaN \<or> n = Fin 0 \<longrightarrow> styleLabel out = ''balanced'')
     \<and> (js_prop (js_prop body ''onboardingData'') ''coachingStyle'' = JUndefined \<longrightarrow> n = NaN)"
proof -
  have l: "styleLabel out =
      fst (style_band (if truthy (JNum n) then n else Fin 5))"
    using system_prompt_label [OF assms(1)] by (simp add: coaching_style_def assms(2) Let_def)
  show ?thesis
    using assms(2)
    by (cases n) (auto simp: l style_band_label js_ge_def js_le_def)
qed

theorem style_label_bands_witness:
  "map_sum id (map_reply styleLabel)
     (system_prompt example_runtime
        (JObj [(''onboardingData'', JObj [(''coachingStyle'', JNum (Fin 11))])])) =
   Inr (Ok ''hardtruth'')"
proof -
  let ?body = "JObj [(''onboardingData'', JObj [(''coachingStyle'', JNum (Fin 11))])]"
  have "\<exists>out. system_prompt example_runtime ?body = Inr (Ok out)"
    by (simp add: system_prompt_def get_prop_def nullish_def Let_def joined_or_def opt_prop_def
        js_gt_def js_le_def journal_context_def split: prod.splits)
  then obtain out where out: "system_prompt example_runtime ?body = Inr (Ok out)"
    by blast
  have "styleLabel out = ''hardtruth''"
    using style_label_bands [OF out refl] by simp
  then show ?thesis
    by (simp add: out)
qed

text \<open>
  At \<open>coachingStyle\<close> 0 the label is \<open>balanced\<close>: the sentence of the specification that
  sends 0 to \<open>hardtruth\<close> does not hold of \<open>Number(x) || 5\<close>.
\<close>

theorem coaching_style_zero_is_balanced:
  "map_sum id (map_reply styleLabel)
     (system_prompt example_runtime
        (JObj [(''onboardingData'', JObj [(''coachingStyle'', JNum (Fin 0))])])) =
   Inr (Ok ''balanced'')"
  by (simp add: system_prompt_def get_prop_def nullish_def Let_def joined_or_def opt_prop_def
      js_gt_def js_le_def js_ge_def journal_context_def coaching_style_def style_band_def
      split: prod.splits)

text \<open>
  The persona handler reads three fields of the body, \<open>onboardingData\<close>, \<open>progressData\<close>
  and \<open>journalEntries\<close>: two bodies that agree on them get the same reply, whatever else
  they hold.
\<close>

lemma persona_reads_three_fields:
  assumes "get_prop body ''onboardingData'' = get_prop body' ''onboardingData''"
    and "get_prop body ''progressData'' = get_prop body' ''progressData''"
    and "get_prop body ''journalEntries'' = get_prop body' ''journalEntries''"
  shows "system_prompt rt body = system_prompt rt body'"
proof (cases "nullish body")
  case True
  then have "nullish body'"
    using assms(1) by (simp add: get_prop_def split: if_splits)
  then show ?thesis
    using True by (simp add: system_prompt_def get_prop_def)
next
  case False
  then have n: "\<not> nullish body'"
    using assms(1) by (simp add: get_prop_def split: if_splits)
  have "js_prop body ''onboardingData'' = js_prop body' ''onboardingData''"
    "js_prop body ''progressData'' = js_prop body' ''progressData''"
    "js_prop body ''journalEntries'' = js_prop body' ''journalEntries''"
    using assms False n by (simp_all add: get_prop_def)
  then show ?thesis
    using False n by (simp add: system_prompt_def get_prop_def)
qed

lemma persona_reads_three_fields_example:
  "system_prompt example_runtime
     (JObj [(''onboardingData'', JObj [(''name'', JStr ''Sam''), (''coachingStyle'', JNum (Fin 2))]),
            (''progressData'', JObj [(''currentDay'', JNum (Fin 9))])]) =
   system_prompt example_runtime
     (JObj [(''requestId'', JStr ''r-17''),
            (''onboardingData'', JObj [(''name'', JStr ''Sam''), (''coachingStyle'', JNum (Fin 2))]),
            (''progressData'', JObj [(''currentDay'', JNum (Fin 9))]),
            (''debug'', JBool True)])"
  by (rule persona_reads_three_fields) (simp_all add: get_prop_def nullish_def)

end
